theory Spec2Isabelle
  imports Complex_Main "HOL-Library.Multiset" "HOL-Library.AList"
begin

section \<open>Data model\<close>

text \<open>
  The repository works on pandas frames. A float64 cell is either a finite number or the
  missing value NaN; it is modelled as \<open>real option\<close> with \<open>None\<close> for NaN. Finite
  arithmetic is taken over the reals (no rounding error, no overflow); the IEEE special
  values that a division can produce are written out in \<open>fval\<close> below.

  \<open>parse_response_data\<close> builds one row per API item with the columns
  Date, Open, High, Low, Close. A timestamp is the integer number of nanoseconds since the
  epoch, which is what a pandas Timestamp stores.
\<close>

type_synonym cell = "real option"

record bar =
  Date :: int
  Open :: cell
  High :: cell
  Low :: cell
  Close :: cell

datatype fval = Fin real | PInf | NInf | NaN

datatype error = ValueError | KeyError "string list"

datatype column =
    DateCol "int list"
  | PriceCol "cell list"
  | PctCol "fval list"
  | DaysCol "int option list"

text \<open>
  A frame with a RangeIndex (labels \<open>0 .. n-1\<close>, so that label and position agree): the
  five base columns row by row, and the derived columns by name in insertion order.
\<close>

record dataframe =
  rows :: "bar list"
  derived :: "(string \<times> column) list"

section \<open>pandas primitives\<close>

text \<open>Positions \<open>a \<le> j < b\<close> of a list, clipped to its length.\<close>

definition slice :: "'a list \<Rightarrow> nat \<Rightarrow> nat \<Rightarrow> 'a list" where
  "slice xs a b = take (b - a) (drop a xs)"

text \<open>\<open>Series.max()\<close> and \<open>Series.min()\<close> skip NaN and are NaN on an empty or
  all-NaN series.\<close>

definition present :: "cell list \<Rightarrow> real list" where
  "present xs = map the (filter (\<lambda>c. c \<noteq> None) xs)"

definition nan_max :: "cell list \<Rightarrow> cell" where
  "nan_max xs = (case present xs of [] \<Rightarrow> None | y # ys \<Rightarrow> Some (fold max ys y))"

definition nan_min :: "cell list \<Rightarrow> cell" where
  "nan_min xs = (case present xs of [] \<Rightarrow> None | y # ys \<Rightarrow> Some (fold min ys y))"

text \<open>
  \<open>Series.rolling(window=w, min_periods=1)\<close>: the constructor validates its arguments
  and raises ValueError when \<open>w < 0\<close> or \<open>min_periods > w\<close>; the window of row \<open>i\<close> holds
  the rows \<open>i-w+1 .. i\<close> that exist, and the aggregate is NaN only when the window has
  no observation.
\<close>

definition rolling_max :: "cell list \<Rightarrow> int \<Rightarrow> error + cell list" where
  "rolling_max xs w =
     (if w < 1 then Inl ValueError
      else Inr (map (\<lambda>i. nan_max (slice xs (Suc i - nat w) (Suc i))) [0..<length xs]))"

definition rolling_min :: "cell list \<Rightarrow> int \<Rightarrow> error + cell list" where
  "rolling_min xs w =
     (if w < 1 then Inl ValueError
      else Inr (map (\<lambda>i. nan_min (slice xs (Suc i - nat w) (Suc i))) [0..<length xs]))"

text \<open>
  \<open>Series.iloc[a:b]\<close> follows Python's slice rule: a negative bound counts from the
  end, and every bound is clipped to the length.
\<close>

definition py_bound :: "nat \<Rightarrow> int \<Rightarrow> nat" where
  "py_bound n k = (if k < 0 then nat (max 0 (int n + k)) else min (nat k) n)"

definition iloc_slice :: "'a list \<Rightarrow> int \<Rightarrow> int \<Rightarrow> 'a list" where
  "iloc_slice xs a b = slice xs (py_bound (length xs) a) (py_bound (length xs) b)"

text \<open>
  Arithmetic of two float series aligns them on their labels; a label that only one of
  the series has yields NaN. With RangeIndex labels this is a read that is NaN out of
  range.
\<close>

definition get_cell :: "cell list \<Rightarrow> nat \<Rightarrow> cell" where
  "get_cell xs i = (if i < length xs then xs ! i else None)"

definition fsub :: "cell \<Rightarrow> cell \<Rightarrow> cell" where
  "fsub a b = (case a of None \<Rightarrow> None | Some x \<Rightarrow> (case b of None \<Rightarrow> None | Some y \<Rightarrow> Some (x - y)))"

text \<open>
  Float division does not raise: \<open>x / 0\<close> is an infinity, \<open>0 / 0\<close> is NaN. The reals
  have one zero; a reference of negative zero, which would flip the sign of the infinity,
  is not modelled.
\<close>

definition fdiv :: "cell \<Rightarrow> cell \<Rightarrow> fval" where
  "fdiv a b =
     (case a of None \<Rightarrow> NaN
      | Some x \<Rightarrow>
          (case b of None \<Rightarrow> NaN
           | Some y \<Rightarrow>
               if y = 0 then (if x = 0 then NaN else if 0 < x then PInf else NInf)
               else Fin (x / y)))"

definition fmul100 :: "fval \<Rightarrow> fval" where
  "fmul100 v = (case v of Fin x \<Rightarrow> Fin (x * 100) | PInf \<Rightarrow> PInf | NInf \<Rightarrow> NInf | NaN \<Rightarrow> NaN)"

text \<open>
  \<open>round(series, d)\<close> is numpy's rounding: scale by \<open>10^d\<close>, round to the nearest
  integer with ties to the even one, scale back. Non-finite values pass through.
\<close>

definition rint :: "real \<Rightarrow> int" where
  "rint x =
     (let f = \<lfloor>x\<rfloor>; d = x - of_int f
      in if d < 1 / 2 then f else if 1 / 2 < d then f + 1 else if even f then f else f + 1)"

definition fround :: "fval \<Rightarrow> nat \<Rightarrow> fval" where
  "fround v d = (case v of Fin x \<Rightarrow> Fin (of_int (rint (x * 10 ^ d)) / 10 ^ d) | PInf \<Rightarrow> PInf | NInf \<Rightarrow> NInf | NaN \<Rightarrow> NaN)"

text \<open>Sequencing of steps that may raise: the first error ends the computation.\<close>

definition and_then :: "error + 'a \<Rightarrow> ('a \<Rightarrow> error + 'b) \<Rightarrow> error + 'b" where
  "and_then m f = (case m of Inl e \<Rightarrow> Inl e | Inr v \<Rightarrow> f v)"

text \<open>\<open>numpy.isfinite\<close>: neither an infinity nor NaN.\<close>

fun is_finite :: "fval \<Rightarrow> bool" where
  "is_finite (Fin x) = True"
| "is_finite PInf = False"
| "is_finite NInf = False"
| "is_finite NaN = False"

text \<open>A list comprehension whose elements may raise stops at the first one that does.\<close>

fun sequence :: "(error + 'a) list \<Rightarrow> error + 'a list" where
  "sequence [] = Inr []"
| "sequence (x # xs) =
     (case x of Inl e \<Rightarrow> Inl e
      | Inr v \<Rightarrow> (case sequence xs of Inl e \<Rightarrow> Inl e | Inr vs \<Rightarrow> Inr (v # vs)))"

text \<open>\<open>str(k)\<close> of a Python int, as an f-string renders it.\<close>

definition digit_char :: "nat \<Rightarrow> char" where
  "digit_char d = ''0123456789'' ! d"

fun str_nat :: "nat \<Rightarrow> string" where
  "str_nat n = (if n < 10 then [digit_char n] else str_nat (n div 10) @ [digit_char (n mod 10)])"

declare str_nat.simps [simp del]

definition str_int :: "int \<Rightarrow> string" where
  "str_int k = (if k < 0 then CHR ''-'' # str_nat (nat (- k)) else str_nat (nat k))"

text \<open>The name templates \<open>f"High_Last_{variable1}_Days"\<close> and their siblings.\<close>

definition col_name :: "string \<Rightarrow> int \<Rightarrow> string" where
  "col_name prefix k = prefix @ str_int k @ ''_Days''"

text \<open>
  \<open>data[name] = values\<close> replaces the column of that name in place, or appends a new
  last column. The names assigned by this program are instances of the templates above,
  none of which is the name of a base column.
\<close>

definition setitem :: "dataframe \<Rightarrow> string \<Rightarrow> column \<Rightarrow> dataframe" where
  "setitem data name col = data\<lparr>derived := AList.update name col (derived data)\<rparr>"

definition columns :: "dataframe \<Rightarrow> (string \<times> column) list" where
  "columns data =
     [(''Date'', DateCol (map Date (rows data))),
      (''Open'', PriceCol (map Open (rows data))),
      (''High'', PriceCol (map High (rows data))),
      (''Low'', PriceCol (map Low (rows data))),
      (''Close'', PriceCol (map Close (rows data)))] @ derived data"

text \<open>\<open>len(data[name])\<close>: the number of cells of a column.\<close>

fun column_length :: "column \<Rightarrow> nat" where
  "column_length (DateCol xs) = length xs"
| "column_length (PriceCol xs) = length xs"
| "column_length (PctCol xs) = length xs"
| "column_length (DaysCol xs) = length xs"

text \<open>
  \<open>data[[k1, ..., kn]]\<close>: the sub-frame of the listed columns in the listed order, or
  a KeyError that names the listed columns the frame does not have.
\<close>

definition select_columns :: "dataframe \<Rightarrow> string list \<Rightarrow> error + (string \<times> column) list" where
  "select_columns data key =
     (let missing = rev (remdups (rev (filter (\<lambda>k. map_of (columns data) k = None) key)))
      in if missing = [] then Inr (map (\<lambda>k. (k, the (map_of (columns data) k))) key)
         else Inl (KeyError missing))"

section \<open>utils.py: helper functions for metrics\_calculations.py\<close>

definition calculate_historical_high :: "dataframe \<Rightarrow> int \<Rightarrow> error + cell list" where
  "calculate_historical_high data days = rolling_max (map High (rows data)) days"

definition calculate_historical_low :: "dataframe \<Rightarrow> int \<Rightarrow> error + cell list" where
  "calculate_historical_low data days = rolling_min (map Low (rows data)) days"

text \<open>\<open>Timedelta.days\<close>: whole days of a difference of timestamps, rounded down.\<close>

definition ns_per_day :: int where
  "ns_per_day = 86400000000000"

text \<open>
  \<open>days_since_high(data, index, days)\<close>. The label slice \<open>data.loc[lo:index]\<close> includes
  both ends. The comparison \<open>subset["High"] == high_value\<close> is false on NaN, so the
  selection is empty when the window has no high at all; the maximum of no dates is NaT
  and the function returns None. Otherwise \<open>data.loc[index, "Date"]\<close> is read, which
  raises KeyError when \<open>index\<close> is not a label of the frame. The callers pass the
  positions \<open>range(len(data))\<close>, so \<open>index\<close> is a natural number here.
\<close>

definition days_since_high :: "dataframe \<Rightarrow> nat \<Rightarrow> int \<Rightarrow> error + int option" where
  "days_since_high data index days =
     (let subset = slice (rows data) (nat (max 0 (int index - days + 1))) (Suc index);
          high_value = nan_max (map High subset);
          dates = map Date (filter (\<lambda>r. High r \<noteq> None \<and> High r = high_value) subset)
      in case dates of
           [] \<Rightarrow> Inr None
         | d # ds \<Rightarrow>
             if index < length (rows data)
             then Inr (Some ((Date (rows data ! index) - fold max ds d) div ns_per_day))
             else Inl (KeyError [str_int (int index)]))"

definition days_since_low :: "dataframe \<Rightarrow> nat \<Rightarrow> int \<Rightarrow> error + int option" where
  "days_since_low data index days =
     (let subset = slice (rows data) (nat (max 0 (int index - days + 1))) (Suc index);
          low_value = nan_min (map Low subset);
          dates = map Date (filter (\<lambda>r. Low r \<noteq> None \<and> Low r = low_value) subset)
      in case dates of
           [] \<Rightarrow> Inr None
         | d # ds \<Rightarrow>
             if index < length (rows data)
             then Inr (Some ((Date (rows data ! index) - fold max ds d) div ns_per_day))
             else Inl (KeyError [str_int (int index)]))"

definition calculate_pct_diff :: "cell list \<Rightarrow> cell list \<Rightarrow> fval list" where
  "calculate_pct_diff current reference =
     map (\<lambda>i. fround (fmul100 (fdiv (fsub (get_cell current i) (get_cell reference i))
                                    (get_cell reference i))) 2)
       [0..<max (length current) (length reference)]"

definition calculate_future_high :: "dataframe \<Rightarrow> int \<Rightarrow> cell list" where
  "calculate_future_high data days =
     (let n = length (rows data); high = map High (rows data)
      in map (\<lambda>i. if int i < int n - 1
                   then nan_max (iloc_slice high (int i + 1) (min (int n) (int i + days)))
                   else high ! i) [0..<n])"

definition calculate_future_low :: "dataframe \<Rightarrow> int \<Rightarrow> cell list" where
  "calculate_future_low data days =
     (let n = length (rows data); low = map Low (rows data)
      in map (\<lambda>i. if int i < int n - 1
                   then nan_min (iloc_slice low (int i + 1) (min (int n) (int i + days)))
                   else low ! i) [0..<n])"

section \<open>metrics\_calculations.py\<close>

text \<open>
  Each percentage column is computed from the column assigned just before it; the model
  passes that column's values on instead of reading them back by name.
\<close>

definition add_historical_metrics :: "dataframe \<Rightarrow> int \<Rightarrow> error + dataframe" where
  "add_historical_metrics data variable1 =
     and_then (calculate_historical_high data variable1) (\<lambda>high.
       let data1 = setitem data (col_name ''High_Last_'' variable1) (PriceCol high)
       in and_then
            (sequence (map (\<lambda>i. if variable1 - 1 \<le> int i
                                  then days_since_high data1 i variable1
                                  else Inr (Some 0)) [0..<length (rows data1)]))
            (\<lambda>since_high.
       let data2 = setitem data1 (col_name ''Days_Since_High_Last_'' variable1)
                     (DaysCol since_high);
           data3 = setitem data2 (col_name ''%_Diff_From_High_Last_'' variable1)
                     (PctCol (calculate_pct_diff (map Close (rows data2)) high))
       in and_then (calculate_historical_low data3 variable1) (\<lambda>low.
       let data4 = setitem data3 (col_name ''Low_Last_'' variable1) (PriceCol low)
       in and_then
            (sequence (map (\<lambda>i. if variable1 - 1 \<le> int i
                                  then days_since_low data4 i variable1
                                  else Inr (Some 0)) [0..<length (rows data4)]))
            (\<lambda>since_low.
       let data5 = setitem data4 (col_name ''Days_Since_Low_Last_'' variable1)
                     (DaysCol since_low)
       in Inr (setitem data5 (col_name ''%_Diff_From_Low_Last_'' variable1)
                 (PctCol (calculate_pct_diff (map Close (rows data5)) low)))))))"

definition add_future_metrics :: "dataframe \<Rightarrow> int \<Rightarrow> dataframe" where
  "add_future_metrics data variable2 =
     (let high = calculate_future_high data variable2;
          data1 = setitem data (col_name ''High_Next_'' variable2) (PriceCol high);
          data2 = setitem data1 (col_name ''%_Diff_From_High_Next_'' variable2)
                    (PctCol (calculate_pct_diff (map Close (rows data1)) high));
          low = calculate_future_low data2 variable2;
          data3 = setitem data2 (col_name ''Low_Next_'' variable2) (PriceCol low)
      in setitem data3 (col_name ''%_Diff_From_Low_Next_'' variable2)
           (PctCol (calculate_pct_diff (map Close (rows data3)) low)))"

text \<open>
  The frame that \<open>calculate_metrics\<close> receives has the five columns of
  \<open>parse_response_data\<close> and carries whatever index the fetch left (\<open>pd.concat\<close> of the
  batches repeats labels), so its rows are paired with their labels.
  The dates are already timestamps, on which \<open>pd.to_datetime\<close> is the identity.
  \<open>sort_values("Date")\<close> orders the rows by date; rows with equal dates are kept in
  their input order here. \<open>reset_index(drop=True)\<close> relabels the rows \<open>0 .. n-1\<close>.
\<close>

definition sort_values_Date :: "(int \<times> bar) list \<Rightarrow> (int \<times> bar) list" where
  "sort_values_Date df = sort_key (\<lambda>p. Date (snd p)) df"

definition reset_index :: "(int \<times> bar) list \<Rightarrow> (int \<times> bar) list" where
  "reset_index df = zip (map int [0..<length df]) (map snd df)"

definition normalize_series :: "(int \<times> bar) list \<Rightarrow> (int \<times> bar) list" where
  "normalize_series df = reset_index (sort_values_Date df)"

definition calculate_metrics :: "(int \<times> bar) list \<Rightarrow> int \<Rightarrow> int \<Rightarrow> error + dataframe" where
  "calculate_metrics df variable1 variable2 =
     (let data = \<lparr>rows = map snd (normalize_series df), derived = []\<rparr>
      in and_then (add_historical_metrics data variable1)
           (\<lambda>data1. Inr (add_future_metrics data1 variable2)))"

section \<open>ml\_model.py: the feature and target selection of train\_model\<close>

definition feature_columns :: "int \<Rightarrow> string list" where
  "feature_columns variable1 =
     [col_name ''Days_Since_High_Last_'' variable1,
      col_name ''%_Diff_From_High_Last_'' variable1,
      col_name ''Days_Since_Low_Last_'' variable1,
      col_name ''%_Diff_From_Low_Last_'' variable1]"

definition target_columns :: "int \<Rightarrow> string list" where
  "target_columns variable2 =
     [col_name ''%_Diff_From_High_Next_'' variable2,
      col_name ''%_Diff_From_Low_Next_'' variable2]"

text \<open>Lines 31 to 42 of \<open>train_model\<close>: \<open>X = data[feature_columns]\<close>, then
  \<open>y = data[target_columns]\<close>.\<close>

definition train_model_Xy ::
  "dataframe \<Rightarrow> int \<Rightarrow> int \<Rightarrow> error + ((string \<times> column) list \<times> (string \<times> column) list)" where
  "train_model_Xy data variable1 variable2 =
     and_then (select_columns data (feature_columns variable1)) (\<lambda>X.
       and_then (select_columns data (target_columns variable2)) (\<lambda>y. Inr (X, y)))"

section \<open>The windows as the specification words them\<close>

text \<open>
  The specification's trailing window of row \<open>i\<close> is the rows \<open>[max(0, i-W+1), i]\<close>, and
  its forward window the rows \<open>i+1 .. min(N-1, i+V-1)\<close>. \<open>spec_values f rs J\<close> are the
  numbers that column \<open>f\<close> holds on the rows \<open>J\<close>.
\<close>

definition spec_trailing_window :: "int \<Rightarrow> nat \<Rightarrow> nat set" where
  "spec_trailing_window W i = {j \<in> {..i}. max 0 (int i - W + 1) \<le> int j}"

definition spec_forward_window :: "nat \<Rightarrow> int \<Rightarrow> nat \<Rightarrow> nat set" where
  "spec_forward_window N V i = {j \<in> {..<N}. int i + 1 \<le> int j \<and> int j \<le> min (int N - 1) (int i + V - 1)}"

definition spec_values :: "(bar \<Rightarrow> cell) \<Rightarrow> bar list \<Rightarrow> nat set \<Rightarrow> real set" where
  "spec_values f rs J = (\<lambda>j. the (f (rs ! j))) ` {j \<in> J. f (rs ! j) \<noteq> None}"

text \<open>
  The most recent date at which column \<open>f\<close> holds the value \<open>m\<close> on the rows \<open>J\<close>, and the
  calendar day (days since the epoch) on which a timestamp falls.
\<close>

definition spec_most_recent_date :: "(bar \<Rightarrow> cell) \<Rightarrow> bar list \<Rightarrow> nat set \<Rightarrow> real \<Rightarrow> int" where
  "spec_most_recent_date f rs J m = Max ((\<lambda>j. Date (rs ! j)) ` {j \<in> J. f (rs ! j) = Some m})"

definition spec_calendar_day :: "int \<Rightarrow> int" where
  "spec_calendar_day t = t div ns_per_day"

section \<open>Sample series\<close>

text \<open>Five consecutive days with High = [10,12,9,15,11] and Low = [5,6,4,7,6].\<close>

definition mk_bar :: "int \<Rightarrow> real \<Rightarrow> real \<Rightarrow> real \<Rightarrow> real \<Rightarrow> bar" where
  "mk_bar d op hi lo cl =
     \<lparr>Date = d * ns_per_day, Open = Some op, High = Some hi, Low = Some lo, Close = Some cl\<rparr>"

definition five_days :: "bar list" where
  "five_days =
     [mk_bar 0 7 10 5 8, mk_bar 1 8 12 6 11, mk_bar 2 8 9 4 6, mk_bar 3 6 15 7 12,
      mk_bar 4 12 11 6 9]"

definition five_days_frame :: dataframe where
  "five_days_frame = \<lparr>rows = five_days, derived = []\<rparr>"

text \<open>Four consecutive days on which the high 9 and the low 2 each occur twice.\<close>

definition tied_days :: "bar list" where
  "tied_days = [mk_bar 0 5 7 3 6, mk_bar 1 6 9 2 8, mk_bar 2 8 9 2 7, mk_bar 3 7 8 5 6]"

definition tied_days_frame :: dataframe where
  "tied_days_frame = \<lparr>rows = tied_days, derived = []\<rparr>"

text \<open>
  A fetched frame as \<open>fetch_crypto_data\<close> leaves it: the newer batch first, labels that
  restart at 0 in each batch, and the boundary day present in both batches.
\<close>

definition two_batches :: "(int \<times> bar) list" where
  "two_batches = [(0, mk_bar 1 8 12 6 11), (1, mk_bar 2 8 9 4 6), (0, mk_bar 1 8 12 6 11)]"

text \<open>Two days, the first with a low of 0.\<close>

definition zero_low_input :: "(int \<times> bar) list" where
  "zero_low_input = [(0, mk_bar 0 1 2 0 1), (1, mk_bar 1 1 3 1 2)]"

section \<open>Facts about the primitives\<close>

lemma slice_eq_map_nth: "slice xs a b = map (nth xs) [a..<min b (length xs)]"
proof (rule nth_equalityI)
  show "length (slice xs a b) = length (map (nth xs) [a..<min b (length xs)])"
    by (auto simp: slice_def)
next
  fix i assume "i < length (slice xs a b)"
  then have "i < length xs - a" and "i < b - a"
    by (simp_all add: slice_def)
  then have "a + i < min b (length xs)"
    by arith
  then show "slice xs a b ! i = map (nth xs) [a..<min b (length xs)] ! i"
    using \<open>i < length xs - a\<close> \<open>i < b - a\<close> by (simp add: slice_def del: upt_Suc)
qed

lemma length_slice: "length (slice xs a b) = min b (length xs) - a"
  by (simp add: slice_eq_map_nth)

lemma set_slice: "set (slice xs a b) = {xs ! j |j. a \<le> j \<and> j < b \<and> j < length xs}"
  by (auto simp: slice_eq_map_nth)

lemma set_present: "set (present xs) = {v. Some v \<in> set xs}"
  by (force simp: present_def)

lemma nan_max_None: "nan_max xs = None \<longleftrightarrow> {v. Some v \<in> set xs} = {}"
  unfolding nan_max_def set_present [symmetric] by (simp split: list.splits)

lemma nan_max_Some:
  assumes "{v. Some v \<in> set xs} \<noteq> {}"
  shows "nan_max xs = Some (Max {v. Some v \<in> set xs})"
proof -
  from assms obtain y ys where p: "present xs = y # ys"
    unfolding set_present [symmetric] by (cases "present xs") auto
  have a: "nan_max xs = Some (fold max ys y)"
    by (simp add: nan_max_def p)
  have b: "fold max ys y = Max (set (present xs))"
    unfolding p by (rule Max.set_eq_fold [symmetric])
  show ?thesis
    unfolding a b set_present ..
qed

lemma nan_min_None: "nan_min xs = None \<longleftrightarrow> {v. Some v \<in> set xs} = {}"
  unfolding nan_min_def set_present [symmetric] by (simp split: list.splits)

lemma nan_min_Some:
  assumes "{v. Some v \<in> set xs} \<noteq> {}"
  shows "nan_min xs = Some (Min {v. Some v \<in> set xs})"
proof -
  from assms obtain y ys where p: "present xs = y # ys"
    unfolding set_present [symmetric] by (cases "present xs") auto
  have a: "nan_min xs = Some (fold min ys y)"
    by (simp add: nan_min_def p)
  have b: "fold min ys y = Min (set (present xs))"
    unfolding p by (rule Min.set_eq_fold [symmetric])
  show ?thesis
    unfolding a b set_present ..
qed

lemma finite_spec_trailing_window: "finite (spec_trailing_window W i)"
  by (simp add: spec_trailing_window_def)

lemma finite_spec_values: "finite J \<Longrightarrow> finite (spec_values f rs J)"
  by (simp add: spec_values_def)

lemma values_of_slice:
  assumes win: "\<And>j. j \<in> J \<longleftrightarrow> a \<le> j \<and> j < b \<and> j < length rs"
  shows "{v. Some v \<in> set (slice (map f rs) a b)} = spec_values f rs J"
proof (intro set_eqI iffI)
  fix v assume "v \<in> {v. Some v \<in> set (slice (map f rs) a b)}"
  then obtain j where j: "a \<le> j" "j < b" "j < length rs" "f (rs ! j) = Some v"
    by (auto simp: set_slice)
  then have "j \<in> {j \<in> J. f (rs ! j) \<noteq> None}"
    by (simp add: win)
  then have "the (f (rs ! j)) \<in> spec_values f rs J"
    unfolding spec_values_def by (rule imageI)
  then show "v \<in> spec_values f rs J"
    by (simp add: j(4))
next
  fix v assume "v \<in> spec_values f rs J"
  then obtain j where j: "j \<in> J" "f (rs ! j) \<noteq> None" "v = the (f (rs ! j))"
    by (auto simp: spec_values_def)
  then have "a \<le> j" "j < b" "j < length rs" "f (rs ! j) = Some v"
    by (auto simp: win)
  then have "Some v \<in> set (slice (map f rs) a b)"
    unfolding set_slice by (auto intro!: exI [of _ j])
  then show "v \<in> {v. Some v \<in> set (slice (map f rs) a b)}"
    by simp
qed

lemma values_of_trailing_slice:
  assumes "1 \<le> W" and "i < length rs"
  shows "{v. Some v \<in> set (slice (map f rs) (Suc i - nat W) (Suc i))}
         = spec_values f rs (spec_trailing_window W i)"
proof (rule values_of_slice)
  fix j
  show "j \<in> spec_trailing_window W i \<longleftrightarrow> Suc i - nat W \<le> j \<and> j < Suc i \<and> j < length rs"
    using assms by (auto simp: spec_trailing_window_def)
qed

lemma values_of_forward_slice:
  assumes "1 \<le> V" and "Suc i < length rs"
  shows "{v. Some v \<in> set (slice (map f rs) (Suc i) (min (length rs) (i + nat V)))}
         = spec_values f rs (spec_forward_window (length rs) V i)"
proof (rule values_of_slice)
  fix j
  show "j \<in> spec_forward_window (length rs) V i \<longleftrightarrow>
        Suc i \<le> j \<and> j < min (length rs) (i + nat V) \<and> j < length rs"
    using assms by (auto simp: spec_forward_window_def)
qed

lemma py_bound_start: "Suc i < n \<Longrightarrow> py_bound n (int i + 1) = Suc i"
  by (simp add: py_bound_def)

lemma py_bound_stop: "1 \<le> V \<Longrightarrow> py_bound n (min (int n) (int i + V)) = min n (i + nat V)"
  by (auto simp: py_bound_def)

lemma future_high_nth:
  "i < length (rows data) \<Longrightarrow>
   calculate_future_high data V ! i =
     (if Suc i < length (rows data)
      then nan_max (iloc_slice (map High (rows data)) (int i + 1)
                      (min (int (length (rows data))) (int i + V)))
      else High (rows data ! i))"
  by (auto simp: calculate_future_high_def Let_def)

lemma future_low_nth:
  "i < length (rows data) \<Longrightarrow>
   calculate_future_low data V ! i =
     (if Suc i < length (rows data)
      then nan_min (iloc_slice (map Low (rows data)) (int i + 1)
                      (min (int (length (rows data))) (int i + V)))
      else Low (rows data ! i))"
  by (auto simp: calculate_future_low_def Let_def)

lemma length_future_high: "length (calculate_future_high data V) = length (rows data)"
  by (simp add: calculate_future_high_def Let_def)

lemma length_future_low: "length (calculate_future_low data V) = length (rows data)"
  by (simp add: calculate_future_low_def Let_def)

lemma forward_slice:
  assumes "1 \<le> V" and "Suc i < length xs"
  shows "iloc_slice xs (int i + 1) (min (int (length xs)) (int i + V))
         = slice xs (Suc i) (min (length xs) (i + nat V))"
  by (simp add: iloc_slice_def py_bound_start [OF assms(2)] py_bound_stop [OF assms(1)])

lemma nan_max_cases:
  "nan_max xs = (if {v. Some v \<in> set xs} = {} then None else Some (Max {v. Some v \<in> set xs}))"
  using nan_max_None [of xs] nan_max_Some [of xs] by auto

lemma nan_min_cases:
  "nan_min xs = (if {v. Some v \<in> set xs} = {} then None else Some (Min {v. Some v \<in> set xs}))"
  using nan_min_None [of xs] nan_min_Some [of xs] by auto



lemma sequence_map_Inr:
  assumes "\<And>x. x \<in> set xs \<Longrightarrow> \<exists>v. f x = Inr v"
  shows "sequence (map f xs) = Inr (map (\<lambda>x. projr (f x)) xs)"
  using assms
proof (induction xs)
  case Nil
  then show ?case by simp
next
  case (Cons x xs)
  from Cons.prems obtain v where v: "f x = Inr v" by auto
  from Cons have "sequence (map f xs) = Inr (map (\<lambda>x. projr (f x)) xs)" by simp
  with v show ?case by simp
qed

lemma rows_setitem: "rows (setitem data k c) = rows data"
  by (simp add: setitem_def)

lemma derived_setitem: "derived (setitem data k c) = AList.update k c (derived data)"
  by (simp add: setitem_def)

lemma slice_map: "slice (map f xs) a b = map f (slice xs a b)"
  by (simp add: slice_def take_map drop_map)

lemma trailing_start: "1 \<le> W \<Longrightarrow> nat (max 0 (int i - W + 1)) = Suc i - nat W"
  by auto

lemma attaining_dates:
  assumes win: "\<And>j. j \<in> J \<longleftrightarrow> a \<le> j \<and> j < b \<and> j < length rs"
  shows "set (map Date (filter (\<lambda>r. f r = Some m) (slice rs a b)))
         = (\<lambda>j. Date (rs ! j)) ` {j \<in> J. f (rs ! j) = Some m}"
proof -
  have "set (filter (\<lambda>r. f r = Some m) (slice rs a b)) = (\<lambda>j. rs ! j) ` {j \<in> J. f (rs ! j) = Some m}"
    by (auto simp: set_slice win)
  then show ?thesis
    by (simp add: image_image)
qed

lemma fold_max_Max: "fold max ds (d::int) = Max (set (d # ds))"
  by (rule Max.set_eq_fold [symmetric])

lemma days_since_high_eq:
  assumes W: "1 \<le> W" and i: "i < length (rows data)"
  shows "days_since_high data i W =
           Inr (if spec_values High (rows data) (spec_trailing_window W i) = {} then None
                else Some ((Date (rows data ! i)
                            - spec_most_recent_date High (rows data) (spec_trailing_window W i)
                                (Max (spec_values High (rows data) (spec_trailing_window W i))))
                           div ns_per_day))"
proof -
  let ?rs = "rows data"
  let ?J = "spec_trailing_window W i"
  let ?vals = "spec_values High ?rs ?J"
  let ?sub = "slice ?rs (Suc i - nat W) (Suc i)"
  have win: "\<And>j. j \<in> ?J \<longleftrightarrow> Suc i - nat W \<le> j \<and> j < Suc i \<and> j < length ?rs"
    using W i by (auto simp: spec_trailing_window_def)
  have hv: "nan_max (map High ?sub) = (if ?vals = {} then None else Some (Max ?vals))"
    unfolding slice_map [symmetric] nan_max_cases values_of_trailing_slice [OF W i] ..
  show ?thesis
  proof (cases "?vals = {}")
    case True
    then have "nan_max (map High ?sub) = None" by (simp add: hv)
    then have "filter (\<lambda>r. High r \<noteq> None \<and> High r = nan_max (map High ?sub)) ?sub = []"
      by (auto simp: filter_empty_conv)
    moreover
    have "days_since_high data i W =
            (case map Date (filter (\<lambda>r. High r \<noteq> None \<and> High r = nan_max (map High ?sub)) ?sub) of
               [] \<Rightarrow> Inr None
             | d # ds \<Rightarrow>
                 if i < length ?rs
                 then Inr (Some ((Date (?rs ! i) - fold max ds d) div ns_per_day))
                 else Inl (KeyError [str_int (int i)]))"
      by (simp only: days_since_high_def Let_def trailing_start [OF W])
    ultimately show ?thesis
      using True by simp
  next
    case False
    let ?m = "Max ?vals"
    from False have m: "nan_max (map High ?sub) = Some ?m" by (simp add: hv)
    have fin: "finite ?vals"
      by (rule finite_spec_values) (rule finite_spec_trailing_window)
    from Max_in [OF fin False] obtain j where j: "j \<in> ?J" "High (?rs ! j) = Some ?m"
      by (auto simp: spec_values_def)
    have flt: "filter (\<lambda>r. High r \<noteq> None \<and> High r = nan_max (map High ?sub)) ?sub
               = filter (\<lambda>r. High r = Some ?m) ?sub"
      unfolding m by (rule filter_cong) auto
    have ds: "set (map Date (filter (\<lambda>r. High r = Some ?m) ?sub))
              = (\<lambda>j. Date (?rs ! j)) ` {j \<in> ?J. High (?rs ! j) = Some ?m}"
      by (rule attaining_dates) (rule win)
    from j have "{j \<in> ?J. High (?rs ! j) = Some ?m} \<noteq> {}"
      by blast
    then have "set (map Date (filter (\<lambda>r. High r = Some ?m) ?sub)) \<noteq> {}"
      unfolding ds by simp
    then obtain d rest where dl: "map Date (filter (\<lambda>r. High r = Some ?m) ?sub) = d # rest"
      by (cases "map Date (filter (\<lambda>r. High r = Some ?m) ?sub)") auto
    have mr: "fold max rest d = spec_most_recent_date High ?rs ?J ?m"
      unfolding fold_max_Max dl [symmetric] ds spec_most_recent_date_def ..
    have "days_since_high data i W =
            (case map Date (filter (\<lambda>r. High r \<noteq> None \<and> High r = nan_max (map High ?sub)) ?sub) of
               [] \<Rightarrow> Inr None
             | d # ds \<Rightarrow>
                 if i < length ?rs
                 then Inr (Some ((Date (?rs ! i) - fold max ds d) div ns_per_day))
                 else Inl (KeyError [str_int (int i)]))"
      by (simp only: days_since_high_def Let_def trailing_start [OF W])
    then show ?thesis
      unfolding flt dl using False i mr by simp
  qed
qed

lemma days_since_low_eq:
  assumes W: "1 \<le> W" and i: "i < length (rows data)"
  shows "days_since_low data i W =
           Inr (if spec_values Low (rows data) (spec_trailing_window W i) = {} then None
                else Some ((Date (rows data ! i)
                            - spec_most_recent_date Low (rows data) (spec_trailing_window W i)
                                (Min (spec_values Low (rows data) (spec_trailing_window W i))))
                           div ns_per_day))"
proof -
  let ?rs = "rows data"
  let ?J = "spec_trailing_window W i"
  let ?vals = "spec_values Low ?rs ?J"
  let ?sub = "slice ?rs (Suc i - nat W) (Suc i)"
  have win: "\<And>j. j \<in> ?J \<longleftrightarrow> Suc i - nat W \<le> j \<and> j < Suc i \<and> j < length ?rs"
    using W i by (auto simp: spec_trailing_window_def)
  have hv: "nan_min (map Low ?sub) = (if ?vals = {} then None else Some (Min ?vals))"
    unfolding slice_map [symmetric] nan_min_cases values_of_trailing_slice [OF W i] ..
  show ?thesis
  proof (cases "?vals = {}")
    case True
    then have "nan_min (map Low ?sub) = None" by (simp add: hv)
    then have "filter (\<lambda>r. Low r \<noteq> None \<and> Low r = nan_min (map Low ?sub)) ?sub = []"
      by (auto simp: filter_empty_conv)
    moreover
    have "days_since_low data i W =
            (case map Date (filter (\<lambda>r. Low r \<noteq> None \<and> Low r = nan_min (map Low ?sub)) ?sub) of
               [] \<Rightarrow> Inr None
             | d # ds \<Rightarrow>
                 if i < length ?rs
                 then Inr (Some ((Date (?rs ! i) - fold max ds d) div ns_per_day))
                 else Inl (KeyError [str_int (int i)]))"
      by (simp only: days_since_low_def Let_def trailing_start [OF W])
    ultimately show ?thesis
      using True by simp
  next
    case False
    let ?m = "Min ?vals"
    from False have m: "nan_min (map Low ?sub) = Some ?m" by (simp add: hv)
    have fin: "finite ?vals"
      by (rule finite_spec_values) (rule finite_spec_trailing_window)
    from Min_in [OF fin False] obtain j where j: "j \<in> ?J" "Low (?rs ! j) = Some ?m"
      by (auto simp: spec_values_def)
    have flt: "filter (\<lambda>r. Low r \<noteq> None \<and> Low r = nan_min (map Low ?sub)) ?sub
               = filter (\<lambda>r. Low r = Some ?m) ?sub"
      unfolding m by (rule filter_cong) auto
    have ds: "set (map Date (filter (\<lambda>r. Low r = Some ?m) ?sub))
              = (\<lambda>j. Date (?rs ! j)) ` {j \<in> ?J. Low (?rs ! j) = Some ?m}"
      by (rule attaining_dates) (rule win)
    from j have "{j \<in> ?J. Low (?rs ! j) = Some ?m} \<noteq> {}"
      by blast
    then have "set (map Date (filter (\<lambda>r. Low r = Some ?m) ?sub)) \<noteq> {}"
      unfolding ds by simp
    then obtain d rest where dl: "map Date (filter (\<lambda>r. Low r = Some ?m) ?sub) = d # rest"
      by (cases "map Date (filter (\<lambda>r. Low r = Some ?m) ?sub)") auto
    have mr: "fold max rest d = spec_most_recent_date Low ?rs ?J ?m"
      unfolding fold_max_Max dl [symmetric] ds spec_most_recent_date_def ..
    have "days_since_low data i W =
            (case map Date (filter (\<lambda>r. Low r \<noteq> None \<and> Low r = nan_min (map Low ?sub)) ?sub) of
               [] \<Rightarrow> Inr None
             | d # ds \<Rightarrow>
                 if i < length ?rs
                 then Inr (Some ((Date (?rs ! i) - fold max ds d) div ns_per_day))
                 else Inl (KeyError [str_int (int i)]))"
      by (simp only: days_since_low_def Let_def trailing_start [OF W])
    then show ?thesis
      unfolding flt dl using False i mr by simp
  qed
qed

lemma days_since_high_rows:
  "rows d = rows d' \<Longrightarrow> days_since_high d i W = days_since_high d' i W"
  unfolding days_since_high_def by (erule subst) (rule refl)

lemma days_since_low_rows:
  "rows d = rows d' \<Longrightarrow> days_since_low d i W = days_since_low d' i W"
  unfolding days_since_low_def by (erule subst) (rule refl)

lemma days_since_high_Inr:
  "1 \<le> W \<Longrightarrow> i < length (rows data) \<Longrightarrow> \<exists>v. days_since_high data i W = Inr v"
  by (simp add: days_since_high_eq)

lemma days_since_low_Inr:
  "1 \<le> W \<Longrightarrow> i < length (rows data) \<Longrightarrow> \<exists>v. days_since_low data i W = Inr v"
  by (simp add: days_since_low_eq)

lemma add_historical_metrics_Inr:
  assumes W: "1 \<le> W"
  shows "add_historical_metrics data W =
    Inr (data\<lparr>derived :=
      AList.update (col_name ''%_Diff_From_Low_Last_'' W)
        (PctCol (calculate_pct_diff (map Close (rows data))
                   (projr (calculate_historical_low data W))))
      (AList.update (col_name ''Days_Since_Low_Last_'' W)
        (DaysCol (map (\<lambda>i. if W - 1 \<le> int i then projr (days_since_low data i W) else Some 0)
                    [0..<length (rows data)]))
      (AList.update (col_name ''Low_Last_'' W)
        (PriceCol (projr (calculate_historical_low data W)))
      (AList.update (col_name ''%_Diff_From_High_Last_'' W)
        (PctCol (calculate_pct_diff (map Close (rows data))
                   (projr (calculate_historical_high data W))))
      (AList.update (col_name ''Days_Since_High_Last_'' W)
        (DaysCol (map (\<lambda>i. if W - 1 \<le> int i then projr (days_since_high data i W) else Some 0)
                    [0..<length (rows data)]))
      (AList.update (col_name ''High_Last_'' W)
        (PriceCol (projr (calculate_historical_high data W)))
        (derived data))))))\<rparr>)"
proof -
  obtain hs where hs: "calculate_historical_high data W = Inr hs"
    using W by (simp add: calculate_historical_high_def rolling_max_def)
  obtain ls where ls: "calculate_historical_low data W = Inr ls"
    using W by (simp add: calculate_historical_low_def rolling_min_def)
  have low_rows: "\<And>d. rows d = rows data \<Longrightarrow> calculate_historical_low d W = Inr ls"
    using ls by (simp add: calculate_historical_low_def)
  have sh: "sequence (map (\<lambda>i. if W - 1 \<le> int i then days_since_high d i W else Inr (Some 0))
                        [0..<length (rows data)])
            = Inr (map (\<lambda>i. if W - 1 \<le> int i then projr (days_since_high data i W) else Some 0)
                     [0..<length (rows data)])"
    if d: "rows d = rows data" for d
  proof -
    have "sequence (map (\<lambda>i. if W - 1 \<le> int i then days_since_high d i W else Inr (Some 0))
                        [0..<length (rows data)])
          = Inr (map (\<lambda>i. projr (if W - 1 \<le> int i then days_since_high d i W else Inr (Some 0)))
                   [0..<length (rows data)])"
      by (rule sequence_map_Inr) (use W d in \<open>auto simp: days_since_high_eq\<close>)
    also have "map (\<lambda>i. projr (if W - 1 \<le> int i then days_since_high d i W else Inr (Some 0)))
                   [0..<length (rows data)]
             = map (\<lambda>i. if W - 1 \<le> int i then projr (days_since_high data i W) else Some 0)
                   [0..<length (rows data)]"
      by (rule map_cong) (auto simp: days_since_high_rows [OF d])
    finally show ?thesis .
  qed
  have sl: "sequence (map (\<lambda>i. if W - 1 \<le> int i then days_since_low d i W else Inr (Some 0))
                        [0..<length (rows data)])
            = Inr (map (\<lambda>i. if W - 1 \<le> int i then projr (days_since_low data i W) else Some 0)
                     [0..<length (rows data)])"
    if d: "rows d = rows data" for d
  proof -
    have "sequence (map (\<lambda>i. if W - 1 \<le> int i then days_since_low d i W else Inr (Some 0))
                        [0..<length (rows data)])
          = Inr (map (\<lambda>i. projr (if W - 1 \<le> int i then days_since_low d i W else Inr (Some 0)))
                   [0..<length (rows data)])"
      by (rule sequence_map_Inr) (use W d in \<open>auto simp: days_since_low_eq\<close>)
    also have "map (\<lambda>i. projr (if W - 1 \<le> int i then days_since_low d i W else Inr (Some 0)))
                   [0..<length (rows data)]
             = map (\<lambda>i. if W - 1 \<le> int i then projr (days_since_low data i W) else Some 0)
                   [0..<length (rows data)]"
      by (rule map_cong) (auto simp: days_since_low_rows [OF d])
    finally show ?thesis .
  qed
  show ?thesis
    unfolding add_historical_metrics_def
    by (simp add: and_then_def Let_def hs ls rows_setitem sh sl low_rows derived_setitem setitem_def)
qed

lemma historical_columns:
  assumes W: "1 \<le> W"
  obtains out where
    "add_historical_metrics data W = Inr out"
    "rows out = rows data"
    "map_of (columns out) (col_name ''High_Last_'' W)
       = Some (PriceCol (projr (calculate_historical_high data W)))"
    "map_of (columns out) (col_name ''Days_Since_High_Last_'' W)
       = Some (DaysCol (map (\<lambda>i. if W - 1 \<le> int i then projr (days_since_high data i W) else Some 0)
                          [0..<length (rows data)]))"
    "map_of (columns out) (col_name ''%_Diff_From_High_Last_'' W)
       = Some (PctCol (calculate_pct_diff (map Close (rows data))
                         (projr (calculate_historical_high data W))))"
    "map_of (columns out) (col_name ''Low_Last_'' W)
       = Some (PriceCol (projr (calculate_historical_low data W)))"
    "map_of (columns out) (col_name ''Days_Since_Low_Last_'' W)
       = Some (DaysCol (map (\<lambda>i. if W - 1 \<le> int i then projr (days_since_low data i W) else Some 0)
                          [0..<length (rows data)]))"
    "map_of (columns out) (col_name ''%_Diff_From_Low_Last_'' W)
       = Some (PctCol (calculate_pct_diff (map Close (rows data))
                         (projr (calculate_historical_low data W))))"
proof -
  note r = add_historical_metrics_Inr [OF W, of data]
  show ?thesis
    by (rule that [OF r]) (simp_all add: columns_def update_conv' col_name_def)
qed

lemma whole_days_gap:
  assumes "(a::int) mod ns_per_day = 0" and "b mod ns_per_day = 0"
  shows "(a - b) div ns_per_day = spec_calendar_day a - spec_calendar_day b"
proof -
  from assms have "ns_per_day dvd a" "ns_per_day dvd b" by auto
  then show ?thesis
    unfolding spec_calendar_day_def by (metis div_diff)
qed

lemma most_recent_date_in:
  assumes "finite J" and "{j \<in> J. f (rs ! j) = Some m} \<noteq> {}"
  shows "\<exists>j \<in> J. f (rs ! j) = Some m \<and> spec_most_recent_date f rs J m = Date (rs ! j)"
proof -
  let ?A = "{j \<in> J. f (rs ! j) = Some m}"
  have "finite ((\<lambda>j. Date (rs ! j)) ` ?A)" "(\<lambda>j. Date (rs ! j)) ` ?A \<noteq> {}"
    using assms by simp_all
  from Max_in [OF this] show ?thesis
    unfolding spec_most_recent_date_def by auto
qed

lemma most_recent_date_sorted:
  assumes fin: "finite J" and ne: "{j \<in> J. f (rs ! j) = Some m} \<noteq> {}"
    and J: "\<And>j. j \<in> J \<Longrightarrow> j < length rs" and srt: "sorted (map Date rs)"
  shows "spec_most_recent_date f rs J m = Date (rs ! Max {j \<in> J. f (rs ! j) = Some m})"
proof -
  let ?A = "{j \<in> J. f (rs ! j) = Some m}"
  have finA: "finite ?A" using fin by simp
  have top: "Max ?A \<in> ?A" by (rule Max_in [OF finA ne])
  show ?thesis
    unfolding spec_most_recent_date_def
  proof (rule Max_eqI)
    show "finite ((\<lambda>j. Date (rs ! j)) ` ?A)" using finA by simp
    show "Date (rs ! Max ?A) \<in> (\<lambda>j. Date (rs ! j)) ` ?A" using top by (rule imageI)
    fix y assume "y \<in> (\<lambda>j. Date (rs ! j)) ` ?A"
    then obtain j where j: "j \<in> ?A" "y = Date (rs ! j)" by auto
    then have le: "j \<le> Max ?A" using finA by simp
    have bound: "Max ?A < length rs" using top J by simp
    have "map Date rs ! j \<le> map Date rs ! Max ?A"
      using srt le bound by (intro sorted_nth_mono) simp_all
    moreover have "j < length rs" using le bound by simp
    ultimately show "y \<le> Date (rs ! Max ?A)"
      using j(2) bound by simp
  qed
qed

lemma spec_values_attained:
  assumes "finite J" and "spec_values f rs J \<noteq> {}"
  shows "{j \<in> J. f (rs ! j) = Some (Max (spec_values f rs J))} \<noteq> {}"
    and "{j \<in> J. f (rs ! j) = Some (Min (spec_values f rs J))} \<noteq> {}"
proof -
  have fin: "finite (spec_values f rs J)" by (rule finite_spec_values [OF assms(1)])
  from Max_in [OF fin assms(2)] show "{j \<in> J. f (rs ! j) = Some (Max (spec_values f rs J))} \<noteq> {}"
    by (auto simp: spec_values_def)
  from Min_in [OF fin assms(2)] show "{j \<in> J. f (rs ! j) = Some (Min (spec_values f rs J))} \<noteq> {}"
    by (auto simp: spec_values_def)
qed

lemma trailing_window_in_range:
  "i < n \<Longrightarrow> j \<in> spec_trailing_window W i \<Longrightarrow> j < n"
  by (simp add: spec_trailing_window_def)

lemma full_trailing_window:
  "1 \<le> W \<Longrightarrow> W - 1 \<le> int i \<Longrightarrow> spec_trailing_window W i = {nat (int i - W + 1) .. i}"
  by (auto simp: spec_trailing_window_def)

lemma length_normalize_series: "length (normalize_series df) = length df"
  by (simp add: normalize_series_def reset_index_def sort_values_Date_def)

lemma rows_normalize_series:
  "map snd (normalize_series df) = map snd (sort_key (\<lambda>p. Date (snd p)) df)"
  by (simp add: normalize_series_def reset_index_def sort_values_Date_def)

lemma index_normalize_series: "map fst (normalize_series df) = map int [0..<length df]"
  by (simp add: normalize_series_def reset_index_def sort_values_Date_def)

lemma dates_normalize_series:
  "map (\<lambda>p. Date (snd p)) (normalize_series df)
   = map (\<lambda>p. Date (snd p)) (sort_key (\<lambda>p. Date (snd p)) df)"
proof -
  have "map (\<lambda>p. Date (snd p)) (normalize_series df) = map Date (map snd (normalize_series df))"
    by simp
  also have "\<dots> = map Date (map snd (sort_key (\<lambda>p. Date (snd p)) df))"
    by (simp only: rows_normalize_series)
  finally show ?thesis by simp
qed

lemma mset_rows_normalize_series:
  "mset (map snd (normalize_series df)) = mset (map snd df)"
  by (simp add: rows_normalize_series)

lemma sorted_normalize_series: "sorted (map (\<lambda>p. Date (snd p)) (normalize_series df))"
  unfolding dates_normalize_series by (rule sorted_sort_key)

lemma distinct_dates_normalize_series:
  "distinct (map (\<lambda>p. Date (snd p)) (normalize_series df)) \<longleftrightarrow>
   distinct (map (\<lambda>p. Date (snd p)) df)"
proof -
  have "mset (map (\<lambda>p. Date (snd p)) (normalize_series df)) = mset (map (\<lambda>p. Date (snd p)) df)"
    unfolding dates_normalize_series by simp
  then show ?thesis
    by (rule mset_eq_imp_distinct_iff)
qed


lemma fround_Fin:
  "fround (Fin x) 2 = Fin (of_int (rint (x * 100)) / 100)"
  by (simp add: fround_def)


lemma length_calculate_pct_diff:
  "length (calculate_pct_diff current reference) = max (length current) (length reference)"
  by (simp add: calculate_pct_diff_def)

lemma calculate_pct_diff_nth:
  assumes "i < length current" and "i < length reference"
  shows "calculate_pct_diff current reference ! i
         = fround (fmul100 (fdiv (fsub (current ! i) (reference ! i)) (reference ! i))) 2"
  using assms by (simp add: calculate_pct_diff_def get_cell_def)


lemma pct_cell_zero_reference:
  "fround (fmul100 (fdiv (fsub c (Some 0)) (Some 0))) 2
   = (case c of None \<Rightarrow> NaN
      | Some x \<Rightarrow> if x = 0 then NaN else if 0 < x then PInf else NInf)"
  by (simp add: fsub_def fdiv_def fmul100_def fround_def split: option.splits)

lemma calculate_future_high_rows:
  "rows d = rows d' \<Longrightarrow> calculate_future_high d V = calculate_future_high d' V"
  by (simp add: calculate_future_high_def)

lemma calculate_future_low_rows:
  "rows d = rows d' \<Longrightarrow> calculate_future_low d V = calculate_future_low d' V"
  by (simp add: calculate_future_low_def)

lemma add_future_metrics_eq:
  "add_future_metrics data V =
     data\<lparr>derived :=
       AList.update (col_name ''%_Diff_From_Low_Next_'' V)
         (PctCol (calculate_pct_diff (map Close (rows data)) (calculate_future_low data V)))
       (AList.update (col_name ''Low_Next_'' V) (PriceCol (calculate_future_low data V))
       (AList.update (col_name ''%_Diff_From_High_Next_'' V)
         (PctCol (calculate_pct_diff (map Close (rows data)) (calculate_future_high data V)))
       (AList.update (col_name ''High_Next_'' V) (PriceCol (calculate_future_high data V))
         (derived data))))\<rparr>"
proof -
  let ?h = "calculate_future_high data V"
  let ?d1 = "setitem data (col_name ''High_Next_'' V) (PriceCol ?h)"
  let ?d2 = "setitem ?d1 (col_name ''%_Diff_From_High_Next_'' V)
               (PctCol (calculate_pct_diff (map Close (rows ?d1)) ?h))"
  have l: "calculate_future_low ?d2 V = calculate_future_low data V"
    by (rule calculate_future_low_rows) (simp add: rows_setitem)
  show ?thesis
    unfolding add_future_metrics_def Let_def l by (simp add: setitem_def)
qed

lemma rows_add_future_metrics: "rows (add_future_metrics data V) = rows data"
  by (simp add: add_future_metrics_eq)


lemma future_columns:
  "map_of (columns (add_future_metrics data V)) (col_name ''High_Next_'' V)
     = Some (PriceCol (calculate_future_high data V))"
  "map_of (columns (add_future_metrics data V)) (col_name ''%_Diff_From_High_Next_'' V)
     = Some (PctCol (calculate_pct_diff (map Close (rows data)) (calculate_future_high data V)))"
  "map_of (columns (add_future_metrics data V)) (col_name ''Low_Next_'' V)
     = Some (PriceCol (calculate_future_low data V))"
  "map_of (columns (add_future_metrics data V)) (col_name ''%_Diff_From_Low_Next_'' V)
     = Some (PctCol (calculate_pct_diff (map Close (rows data)) (calculate_future_low data V)))"
  by (simp_all add: add_future_metrics_eq columns_def update_conv' col_name_def)

lemma future_keeps_historical:
  "map_of (columns (add_future_metrics data V)) (col_name ''High_Last_'' W)
     = map_of (columns data) (col_name ''High_Last_'' W)"
  "map_of (columns (add_future_metrics data V)) (col_name ''Days_Since_High_Last_'' W)
     = map_of (columns data) (col_name ''Days_Since_High_Last_'' W)"
  "map_of (columns (add_future_metrics data V)) (col_name ''%_Diff_From_High_Last_'' W)
     = map_of (columns data) (col_name ''%_Diff_From_High_Last_'' W)"
  "map_of (columns (add_future_metrics data V)) (col_name ''Low_Last_'' W)
     = map_of (columns data) (col_name ''Low_Last_'' W)"
  "map_of (columns (add_future_metrics data V)) (col_name ''Days_Since_Low_Last_'' W)
     = map_of (columns data) (col_name ''Days_Since_Low_Last_'' W)"
  "map_of (columns (add_future_metrics data V)) (col_name ''%_Diff_From_Low_Last_'' W)
     = map_of (columns data) (col_name ''%_Diff_From_Low_Last_'' W)"
  by (simp_all add: add_future_metrics_eq columns_def update_conv' col_name_def)

lemma calculate_metrics_columns:
  fixes df :: "(int \<times> bar) list"
  defines "d0 \<equiv> \<lparr>rows = map snd (normalize_series df), derived = []\<rparr>"
  assumes W: "1 \<le> W"
  obtains out where
    "calculate_metrics df W V = Inr out"
    "rows out = map snd (normalize_series df)"
    "map_of (columns out) (col_name ''High_Last_'' W)
       = Some (PriceCol (projr (calculate_historical_high d0 W)))"
    "map_of (columns out) (col_name ''Days_Since_High_Last_'' W)
       = Some (DaysCol (map (\<lambda>i. if W - 1 \<le> int i then projr (days_since_high d0 i W) else Some 0)
                          [0..<length (rows d0)]))"
    "map_of (columns out) (col_name ''%_Diff_From_High_Last_'' W)
       = Some (PctCol (calculate_pct_diff (map Close (rows d0))
                         (projr (calculate_historical_high d0 W))))"
    "map_of (columns out) (col_name ''Low_Last_'' W)
       = Some (PriceCol (projr (calculate_historical_low d0 W)))"
    "map_of (columns out) (col_name ''Days_Since_Low_Last_'' W)
       = Some (DaysCol (map (\<lambda>i. if W - 1 \<le> int i then projr (days_since_low d0 i W) else Some 0)
                          [0..<length (rows d0)]))"
    "map_of (columns out) (col_name ''%_Diff_From_Low_Last_'' W)
       = Some (PctCol (calculate_pct_diff (map Close (rows d0))
                         (projr (calculate_historical_low d0 W))))"
    "map_of (columns out) (col_name ''High_Next_'' V) = Some (PriceCol (calculate_future_high d0 V))"
    "map_of (columns out) (col_name ''%_Diff_From_High_Next_'' V)
       = Some (PctCol (calculate_pct_diff (map Close (rows d0)) (calculate_future_high d0 V)))"
    "map_of (columns out) (col_name ''Low_Next_'' V) = Some (PriceCol (calculate_future_low d0 V))"
    "map_of (columns out) (col_name ''%_Diff_From_Low_Next_'' V)
       = Some (PctCol (calculate_pct_diff (map Close (rows d0)) (calculate_future_low d0 V)))"
proof -
  from historical_columns [OF W, of d0] obtain h where
    h: "add_historical_metrics d0 W = Inr h" and
    r: "rows h = rows d0" and
    c1: "map_of (columns h) (col_name ''High_Last_'' W)
           = Some (PriceCol (projr (calculate_historical_high d0 W)))" and
    c2: "map_of (columns h) (col_name ''Days_Since_High_Last_'' W)
           = Some (DaysCol (map (\<lambda>i. if W - 1 \<le> int i then projr (days_since_high d0 i W) else Some 0)
                              [0..<length (rows d0)]))" and
    c3: "map_of (columns h) (col_name ''%_Diff_From_High_Last_'' W)
           = Some (PctCol (calculate_pct_diff (map Close (rows d0))
                             (projr (calculate_historical_high d0 W))))" and
    c4: "map_of (columns h) (col_name ''Low_Last_'' W)
           = Some (PriceCol (projr (calculate_historical_low d0 W)))" and
    c5: "map_of (columns h) (col_name ''Days_Since_Low_Last_'' W)
           = Some (DaysCol (map (\<lambda>i. if W - 1 \<le> int i then projr (days_since_low d0 i W) else Some 0)
                              [0..<length (rows d0)]))" and
    c6: "map_of (columns h) (col_name ''%_Diff_From_Low_Last_'' W)
           = Some (PctCol (calculate_pct_diff (map Close (rows d0))
                             (projr (calculate_historical_low d0 W))))"
    by blast
  let ?out = "add_future_metrics h V"
  have o: "calculate_metrics df W V = Inr ?out"
    using h by (simp add: calculate_metrics_def Let_def and_then_def d0_def)
  have ro: "rows ?out = map snd (normalize_series df)"
    by (simp add: rows_add_future_metrics r d0_def)
  have fh: "calculate_future_high h V = calculate_future_high d0 V"
    by (rule calculate_future_high_rows [OF r])
  have fl: "calculate_future_low h V = calculate_future_low d0 V"
    by (rule calculate_future_low_rows [OF r])
  show ?thesis
    by (rule that [OF o ro])
      (simp_all only: future_keeps_historical future_columns c1 c2 c3 c4 c5 c6 fh fl r)
qed



lemma length_historical_high:
  "1 \<le> W \<Longrightarrow> length (projr (calculate_historical_high d W)) = length (rows d)"
  by (simp add: calculate_historical_high_def rolling_max_def)

lemma length_historical_low:
  "1 \<le> W \<Longrightarrow> length (projr (calculate_historical_low d W)) = length (rows d)"
  by (simp add: calculate_historical_low_def rolling_min_def)

lemma pct_zero_reference:
  assumes "i < length current" and "i < length reference" and "reference ! i = Some 0"
  shows "\<not> is_finite (calculate_pct_diff current reference ! i)"
    and "calculate_pct_diff current reference ! i = NaN \<longleftrightarrow>
         current ! i = None \<or> current ! i = Some 0"
  unfolding calculate_pct_diff_nth [OF assms(1,2)] assms(3) pct_cell_zero_reference
  by (simp_all split: option.splits)

lemma digit_cases: "d < (10::nat) \<Longrightarrow> d \<in> {0, 1, 2, 3, 4, 5, 6, 7, 8, 9}"
  by auto

lemma digit_char_inject:
  assumes "d < 10" and "e < 10" and "digit_char d = digit_char e"
  shows "d = e"
  using digit_cases [OF assms(1)] digit_cases [OF assms(2)] assms(3)
  by (auto simp: digit_char_def)

lemma digit_char_not_minus: "d < 10 \<Longrightarrow> digit_char d \<noteq> CHR ''-''"
  using digit_cases [of d] by (auto simp: digit_char_def)

lemma str_nat_nonempty: "str_nat n \<noteq> []"
  by (subst str_nat.simps) simp

lemma hd_str_nat_not_minus: "hd (str_nat n) \<noteq> CHR ''-''"
proof (induction n rule: str_nat.induct)
  case (1 n)
  show ?case
  proof (cases "n < 10")
    case True
    then show ?thesis
      by (subst str_nat.simps) (simp add: digit_char_not_minus)
  next
    case False
    with 1 have "hd (str_nat (n div 10)) \<noteq> CHR ''-''" by simp
    with False show ?thesis
      by (subst str_nat.simps) (simp add: str_nat_nonempty)
  qed
qed

lemma str_nat_inject: "str_nat m = str_nat n \<Longrightarrow> m = n"
proof (induction m arbitrary: n rule: str_nat.induct)
  case (1 m)
  show ?case
  proof (cases "m < 10")
    case m: True
    show ?thesis
    proof (cases "n < 10")
      case True
      with m 1(2) show ?thesis
        by (simp add: str_nat.simps [of m] str_nat.simps [of n] digit_char_inject)
    next
      case False
      with m 1(2) have "[digit_char m] = str_nat (n div 10) @ [digit_char (n mod 10)]"
        by (simp add: str_nat.simps [of m] str_nat.simps [of n])
      then have "str_nat (n div 10) = []" by simp
      then show ?thesis by (simp add: str_nat_nonempty)
    qed
  next
    case m: False
    show ?thesis
    proof (cases "n < 10")
      case True
      with m 1(2) have "str_nat (m div 10) @ [digit_char (m mod 10)] = [digit_char n]"
        by (simp add: str_nat.simps [of m] str_nat.simps [of n])
      then have "str_nat (m div 10) = []" by simp
      then show ?thesis by (simp add: str_nat_nonempty)
    next
      case False
      with m 1(2) have "str_nat (m div 10) @ [digit_char (m mod 10)]
                        = str_nat (n div 10) @ [digit_char (n mod 10)]"
        by (simp add: str_nat.simps [of m] str_nat.simps [of n])
      then have a: "str_nat (m div 10) = str_nat (n div 10)"
        and b: "digit_char (m mod 10) = digit_char (n mod 10)"
        by simp_all
      from 1(1) [OF m a] have "m div 10 = n div 10" .
      moreover from b have "m mod 10 = n mod 10"
        by (intro digit_char_inject) simp_all
      ultimately show ?thesis
        by (metis div_mult_mod_eq)
    qed
  qed
qed

lemma str_int_inject: "str_int k = str_int l \<longleftrightarrow> k = l"
proof
  assume e: "str_int k = str_int l"
  show "k = l"
  proof (cases "k < 0"; cases "l < 0")
    assume "k < 0" "l < 0"
    with e have "nat (- k) = nat (- l)"
      by (simp add: str_int_def str_nat_inject)
    with \<open>k < 0\<close> \<open>l < 0\<close> show ?thesis by simp
  next
    assume "k < 0" "\<not> l < 0"
    with e have "CHR ''-'' # str_nat (nat (- k)) = str_nat (nat l)"
      by (simp add: str_int_def)
    then have "hd (str_nat (nat l)) = CHR ''-''"
      by (metis list.sel(1))
    then show ?thesis by (simp add: hd_str_nat_not_minus)
  next
    assume "\<not> k < 0" "l < 0"
    with e have "str_nat (nat k) = CHR ''-'' # str_nat (nat (- l))"
      by (simp add: str_int_def)
    then have "hd (str_nat (nat k)) = CHR ''-''"
      by (metis list.sel(1))
    then show ?thesis by (simp add: hd_str_nat_not_minus)
  next
    assume "\<not> k < 0" "\<not> l < 0"
    with e have "nat k = nat l"
      by (simp add: str_int_def str_nat_inject)
    with \<open>\<not> k < 0\<close> \<open>\<not> l < 0\<close> show ?thesis by simp
  qed
qed simp

lemma keys_update:
  "map fst (AList.update k v al) = (if k \<in> set (map fst al) then map fst al else map fst al @ [k])"
  by (rule update_keys)

lemma calculate_metrics_keys:
  assumes W: "1 \<le> W"
  obtains out where
    "calculate_metrics df W V = Inr out"
    "map fst (columns out) =
       [''Date'', ''Open'', ''High'', ''Low'', ''Close'',
        col_name ''High_Last_'' W, col_name ''Days_Since_High_Last_'' W,
        col_name ''%_Diff_From_High_Last_'' W, col_name ''Low_Last_'' W,
        col_name ''Days_Since_Low_Last_'' W, col_name ''%_Diff_From_Low_Last_'' W,
        col_name ''High_Next_'' V, col_name ''%_Diff_From_High_Next_'' V,
        col_name ''Low_Next_'' V, col_name ''%_Diff_From_Low_Next_'' V]"
proof -
  let ?d0 = "\<lparr>rows = map snd (normalize_series df), derived = []\<rparr>"
  note h = add_historical_metrics_Inr [OF W, of ?d0]
  have o: "calculate_metrics df W V = Inr (add_future_metrics (projr (add_historical_metrics ?d0 W)) V)"
    by (simp add: calculate_metrics_def Let_def and_then_def h)
  show ?thesis
    by (rule that [OF o])
      (simp add: h add_future_metrics_eq columns_def keys_update col_name_def)
qed

lemma select_columns_present:
  assumes "\<And>k. k \<in> set key \<Longrightarrow> k \<in> set (map fst (columns d))"
  shows "select_columns d key = Inr (map (\<lambda>k. (k, the (map_of (columns d) k))) key)"
proof -
  have "filter (\<lambda>k. map_of (columns d) k = None) key = []"
    using assms by (auto simp: filter_empty_conv map_of_eq_None_iff)
  then show ?thesis
    by (simp add: select_columns_def)
qed

lemma select_columns_absent:
  assumes "\<And>k. k \<in> set key \<Longrightarrow> k \<notin> set (map fst (columns d))"
    and "distinct key" and "key \<noteq> []"
  shows "select_columns d key = Inl (KeyError key)"
proof -
  have "filter (\<lambda>k. map_of (columns d) k = None) key = key"
    using assms(1) by (auto simp: filter_id_conv map_of_eq_None_iff)
  moreover have "rev (remdups (rev key)) = key"
    using assms(2) by (simp add: distinct_remdups_id)
  ultimately show ?thesis
    using assms(3) by (simp add: select_columns_def)
qed

lemma distinct_feature_columns: "distinct (feature_columns W)"
  by (simp add: feature_columns_def col_name_def)

lemma distinct_target_columns: "distinct (target_columns V)"
  by (simp add: target_columns_def col_name_def)

lemma historical_keeps_other_columns:
  assumes W: "1 \<le> W"
    and k: "k \<notin> {col_name ''High_Last_'' W, col_name ''Days_Since_High_Last_'' W,
                 col_name ''%_Diff_From_High_Last_'' W, col_name ''Low_Last_'' W,
                 col_name ''Days_Since_Low_Last_'' W, col_name ''%_Diff_From_Low_Last_'' W}"
  shows "map_of (columns (projr (add_historical_metrics d W))) k = map_of (columns d) k"
  using k by (simp add: add_historical_metrics_Inr [OF W] columns_def update_conv' map_add_def)

lemma future_keeps_other_columns:
  assumes k: "k \<notin> {col_name ''High_Next_'' V, col_name ''%_Diff_From_High_Next_'' V,
                    col_name ''Low_Next_'' V, col_name ''%_Diff_From_Low_Next_'' V}"
  shows "map_of (columns (add_future_metrics d V)) k = map_of (columns d) k"
  using k by (simp add: add_future_metrics_eq columns_def update_conv' map_add_def)

lemma rows_add_historical_metrics:
  "1 \<le> W \<Longrightarrow> rows (projr (add_historical_metrics d W)) = rows d"
  by (simp add: add_historical_metrics_Inr)

lemma calculate_metrics_frame:
  fixes df :: "(int \<times> bar) list"
  defines "d0 \<equiv> \<lparr>rows = map snd (normalize_series df), derived = []\<rparr>"
  assumes W: "1 \<le> W"
  shows "calculate_metrics df W V =
    Inr \<lparr>rows = map snd (normalize_series df),
         derived =
           [(col_name ''High_Last_'' W, PriceCol (projr (calculate_historical_high d0 W))),
            (col_name ''Days_Since_High_Last_'' W,
             DaysCol (map (\<lambda>i. if W - 1 \<le> int i then projr (days_since_high d0 i W) else Some 0)
                        [0..<length (rows d0)])),
            (col_name ''%_Diff_From_High_Last_'' W,
             PctCol (calculate_pct_diff (map Close (rows d0))
                       (projr (calculate_historical_high d0 W)))),
            (col_name ''Low_Last_'' W, PriceCol (projr (calculate_historical_low d0 W))),
            (col_name ''Days_Since_Low_Last_'' W,
             DaysCol (map (\<lambda>i. if W - 1 \<le> int i then projr (days_since_low d0 i W) else Some 0)
                        [0..<length (rows d0)])),
            (col_name ''%_Diff_From_Low_Last_'' W,
             PctCol (calculate_pct_diff (map Close (rows d0))
                       (projr (calculate_historical_low d0 W)))),
            (col_name ''High_Next_'' V, PriceCol (calculate_future_high d0 V)),
            (col_name ''%_Diff_From_High_Next_'' V,
             PctCol (calculate_pct_diff (map Close (rows d0)) (calculate_future_high d0 V))),
            (col_name ''Low_Next_'' V, PriceCol (calculate_future_low d0 V)),
            (col_name ''%_Diff_From_Low_Next_'' V,
             PctCol (calculate_pct_diff (map Close (rows d0)) (calculate_future_low d0 V)))]\<rparr>"
proof -
  note h = add_historical_metrics_Inr [OF W, of d0]
  let ?h = "projr (add_historical_metrics d0 W)"
  have rh: "rows ?h = rows d0"
    by (rule rows_add_historical_metrics [OF W])
  have fh: "calculate_future_high ?h V = calculate_future_high d0 V"
    by (rule calculate_future_high_rows [OF rh])
  have fl: "calculate_future_low ?h V = calculate_future_low d0 V"
    by (rule calculate_future_low_rows [OF rh])
  have "calculate_metrics df W V = Inr (add_future_metrics ?h V)"
    unfolding calculate_metrics_def Let_def d0_def [symmetric]
    by (simp add: and_then_def h)
  also have "add_future_metrics ?h V = ?h\<lparr>derived :=
       AList.update (col_name ''%_Diff_From_Low_Next_'' V)
         (PctCol (calculate_pct_diff (map Close (rows d0)) (calculate_future_low d0 V)))
       (AList.update (col_name ''Low_Next_'' V) (PriceCol (calculate_future_low d0 V))
       (AList.update (col_name ''%_Diff_From_High_Next_'' V)
         (PctCol (calculate_pct_diff (map Close (rows d0)) (calculate_future_high d0 V)))
       (AList.update (col_name ''High_Next_'' V) (PriceCol (calculate_future_high d0 V))
         (derived ?h))))\<rparr>"
    unfolding add_future_metrics_eq [of ?h V] fh fl rh ..
  also have "\<dots> = \<lparr>rows = map snd (normalize_series df),
         derived =
           [(col_name ''High_Last_'' W, PriceCol (projr (calculate_historical_high d0 W))),
            (col_name ''Days_Since_High_Last_'' W,
             DaysCol (map (\<lambda>i. if W - 1 \<le> int i then projr (days_since_high d0 i W) else Some 0)
                        [0..<length (rows d0)])),
            (col_name ''%_Diff_From_High_Last_'' W,
             PctCol (calculate_pct_diff (map Close (rows d0))
                       (projr (calculate_historical_high d0 W)))),
            (col_name ''Low_Last_'' W, PriceCol (projr (calculate_historical_low d0 W))),
            (col_name ''Days_Since_Low_Last_'' W,
             DaysCol (map (\<lambda>i. if W - 1 \<le> int i then projr (days_since_low d0 i W) else Some 0)
                        [0..<length (rows d0)])),
            (col_name ''%_Diff_From_Low_Last_'' W,
             PctCol (calculate_pct_diff (map Close (rows d0))
                       (projr (calculate_historical_low d0 W)))),
            (col_name ''High_Next_'' V, PriceCol (calculate_future_high d0 V)),
            (col_name ''%_Diff_From_High_Next_'' V,
             PctCol (calculate_pct_diff (map Close (rows d0)) (calculate_future_high d0 V))),
            (col_name ''Low_Next_'' V, PriceCol (calculate_future_low d0 V)),
            (col_name ''%_Diff_From_Low_Next_'' V,
             PctCol (calculate_pct_diff (map Close (rows d0)) (calculate_future_low d0 V)))]\<rparr>"
    unfolding h by (simp add: col_name_def d0_def)
  finally show ?thesis .
qed

lemma calculate_metrics_lengths:
  assumes W: "1 \<le> W"
  obtains out where
    "calculate_metrics df W V = Inr out"
    "rows out = map snd (normalize_series df)"
    "\<forall>kc \<in> set (columns out). column_length (snd kc) = length df"
proof -
  let ?d0 = "\<lparr>rows = map snd (normalize_series df), derived = []\<rparr>"
  have n: "length (rows ?d0) = length df"
    by (simp add: length_normalize_series)
  note f = calculate_metrics_frame [OF W, of df V]
  show ?thesis
    by (rule that [OF f])
      (simp_all add: columns_def length_calculate_pct_diff length_historical_high [OF W]
        length_historical_low [OF W] length_future_high length_future_low
        length_normalize_series)
qed

lemma empty_window_computations:
  "1 \<le> W \<Longrightarrow> calculate_historical_high \<lparr>rows = [], derived = ds\<rparr> W = Inr []"
  "1 \<le> W \<Longrightarrow> calculate_historical_low \<lparr>rows = [], derived = ds\<rparr> W = Inr []"
  "calculate_future_high \<lparr>rows = [], derived = ds\<rparr> V = []"
  "calculate_future_low \<lparr>rows = [], derived = ds\<rparr> V = []"
  "calculate_pct_diff [] [] = []"
  by (simp_all add: calculate_historical_high_def calculate_historical_low_def rolling_max_def
      rolling_min_def calculate_future_high_def calculate_future_low_def calculate_pct_diff_def)

section \<open>The claims\<close>

subsection \<open>C1: trailing high and trailing low\<close>





subsection \<open>C2: forward high and forward low\<close>

text \<open>
  C2. For every series of \<open>N\<close> rows and every forward window length \<open>V \<ge> 1\<close>,
  \<open>calculate_future_high\<close> and \<open>calculate_future_low\<close> return one value per row. At
  every row \<open>i\<close> but the last, the forward high is the maximum of the highs held by the
  rows \<open>i+1 .. min(N-1, i+V-1)\<close>, which never include row \<open>i\<close> itself, and the forward
  low is the minimum of the lows held by the same rows (NaN when these rows hold no
  number, as for \<open>V = 1\<close>). At the last row the forward high is that row's own high and
  the forward low its own low.
\<close>

theorem forward_high_low_are_window_extremes:
  assumes "1 \<le> V"
  shows "length (calculate_future_high data V) = length (rows data) \<and>
         length (calculate_future_low data V) = length (rows data) \<and>
         (\<forall>i. Suc i < length (rows data) \<longrightarrow>
            i \<notin> spec_forward_window (length (rows data)) V i \<and>
            calculate_future_high data V ! i =
              (if spec_values High (rows data) (spec_forward_window (length (rows data)) V i) = {}
               then None
               else Some (Max (spec_values High (rows data)
                                 (spec_forward_window (length (rows data)) V i)))) \<and>
            calculate_future_low data V ! i =
              (if spec_values Low (rows data) (spec_forward_window (length (rows data)) V i) = {}
               then None
               else Some (Min (spec_values Low (rows data)
                                 (spec_forward_window (length (rows data)) V i))))) \<and>
         (\<forall>i. Suc i = length (rows data) \<longrightarrow>
            calculate_future_high data V ! i = High (rows data ! i) \<and>
            calculate_future_low data V ! i = Low (rows data ! i))"
proof -
  let ?rs = "rows data"
  let ?n = "length ?rs"
  have inner: "i \<notin> spec_forward_window ?n V i \<and>
      calculate_future_high data V ! i =
        (if spec_values High ?rs (spec_forward_window ?n V i) = {} then None
         else Some (Max (spec_values High ?rs (spec_forward_window ?n V i)))) \<and>
      calculate_future_low data V ! i =
        (if spec_values Low ?rs (spec_forward_window ?n V i) = {} then None
         else Some (Min (spec_values Low ?rs (spec_forward_window ?n V i))))"
    if i: "Suc i < ?n" for i
  proof -
    from i have i': "i < ?n" by simp
    have out: "i \<notin> spec_forward_window ?n V i"
      by (simp add: spec_forward_window_def)
    have sh: "Suc i < length (map High ?rs)" and sl: "Suc i < length (map Low ?rs)"
      using i by simp_all
    have h: "calculate_future_high data V ! i
             = nan_max (slice (map High ?rs) (Suc i) (min ?n (i + nat V)))"
      using forward_slice [OF assms sh] i by (simp add: future_high_nth [OF i'])
    have l: "calculate_future_low data V ! i
             = nan_min (slice (map Low ?rs) (Suc i) (min ?n (i + nat V)))"
      using forward_slice [OF assms sl] i by (simp add: future_low_nth [OF i'])
    show ?thesis
      unfolding h l nan_max_cases nan_min_cases values_of_forward_slice [OF assms i]
      using out by simp
  qed
  have last: "calculate_future_high data V ! i = High (?rs ! i) \<and>
              calculate_future_low data V ! i = Low (?rs ! i)"
    if "Suc i = ?n" for i
  proof -
    from that have "i < ?n" and "\<not> Suc i < ?n" by simp_all
    then show ?thesis
      by (simp add: future_high_nth future_low_nth)
  qed
  from inner last show ?thesis
    by (simp add: length_future_high length_future_low)
qed

lemma five_days_future_high_2:
  "calculate_future_high five_days_frame 2 = [Some 12, Some 9, Some 15, Some 11, Some 11]"
  by (simp add: calculate_future_high_def five_days_frame_def five_days_def mk_bar_def
      iloc_slice_def py_bound_def nan_max_def present_def slice_def Let_def)

lemma five_days_future_low_2:
  "calculate_future_low five_days_frame 2 = [Some 6, Some 4, Some 7, Some 6, Some 6]"
  by (simp add: calculate_future_low_def five_days_frame_def five_days_def mk_bar_def
      iloc_slice_def py_bound_def nan_min_def present_def slice_def Let_def)

text \<open>The five-day series with \<open>V = 2\<close>: the forward high of row 2 is the high 15 of
  row 3, and the last row 4 falls back to its own high 11.\<close>

theorem forward_high_low_witness:
  "(1::int) \<le> 2 \<and>
   calculate_future_high five_days_frame 2 = [Some 12, Some 9, Some 15, Some 11, Some 11] \<and>
   calculate_future_low five_days_frame 2 = [Some 6, Some 4, Some 7, Some 6, Some 6] \<and>
   Max (spec_values High (rows five_days_frame) (spec_forward_window 5 2 2)) = 15 \<and>
   Min (spec_values Low (rows five_days_frame) (spec_forward_window 5 2 2)) = 7 \<and>
   High (rows five_days_frame ! 4) = Some 11 \<and>
   Low (rows five_days_frame ! 4) = Some 6"
proof -
  have V: "(1::int) \<le> 2" by simp
  have n: "length (rows five_days_frame) = 5"
    by (simp add: five_days_frame_def five_days_def)
  note T = forward_high_low_are_window_extremes [OF V, of five_days_frame, unfolded n
      five_days_future_high_2 five_days_future_low_2]
  from T have "Suc 2 < (5::nat) \<longrightarrow>
      [Some 12, Some 9, Some 15, Some 11, Some (11::real)] ! 2 =
        (if spec_values High (rows five_days_frame) (spec_forward_window 5 2 2) = {} then None
         else Some (Max (spec_values High (rows five_days_frame) (spec_forward_window 5 2 2)))) \<and>
      [Some 6, Some 4, Some 7, Some 6, Some (6::real)] ! 2 =
        (if spec_values Low (rows five_days_frame) (spec_forward_window 5 2 2) = {} then None
         else Some (Min (spec_values Low (rows five_days_frame) (spec_forward_window 5 2 2))))"
    by blast
  then have a:
    "Max (spec_values High (rows five_days_frame) (spec_forward_window 5 2 2)) = 15"
    "Min (spec_values Low (rows five_days_frame) (spec_forward_window 5 2 2)) = 7"
    by (simp_all split: if_splits)
  from T have "Suc 4 = (5::nat) \<longrightarrow>
      [Some 12, Some 9, Some 15, Some 11, Some (11::real)] ! 4 = High (rows five_days_frame ! 4) \<and>
      [Some 6, Some 4, Some 7, Some 6, Some (6::real)] ! 4 = Low (rows five_days_frame ! 4)"
    by blast
  then have b: "High (rows five_days_frame ! 4) = Some 11" "Low (rows five_days_frame ! 4) = Some 6"
    by simp_all
  from a b V five_days_future_high_2 five_days_future_low_2 show ?thesis
    by simp
qed


subsection \<open>C10: a forward window of length one is empty\<close>

text \<open>
  C10. With \<open>V = 1\<close> the forward high and the forward low of every row but the last are
  the extreme of an empty slice, hence NaN, and not the row's own high or low. For every
  \<open>V\<close>, the last row takes its own high and low, and every other row takes the extreme of
  a slice that starts after it: the fallback to the row's own value happens at the last
  row only.
\<close>

theorem forward_window_one_is_nan:
  "(\<forall>i. Suc i < length (rows data) \<longrightarrow>
      calculate_future_high data 1 ! i = None \<and> calculate_future_low data 1 ! i = None) \<and>
   (\<forall>V i. Suc i = length (rows data) \<longrightarrow>
      calculate_future_high data V ! i = High (rows data ! i) \<and>
      calculate_future_low data V ! i = Low (rows data ! i)) \<and>
   (\<forall>V i. Suc i < length (rows data) \<longrightarrow>
      (\<exists>a b. i < a \<and>
         calculate_future_high data V ! i = nan_max (slice (map High (rows data)) a b) \<and>
         calculate_future_low data V ! i = nan_min (slice (map Low (rows data)) a b)))"
proof (intro conjI allI impI)
  fix i assume i: "Suc i < length (rows data)"
  then have i': "i < length (rows data)" by simp
  have "slice (map High (rows data)) (Suc i) (min (length (rows data)) (i + nat 1)) = []"
    by (simp add: slice_def)
  then show "calculate_future_high data 1 ! i = None"
    using forward_slice [of 1 i "map High (rows data)"] i
    by (simp add: future_high_nth [OF i'] nan_max_def present_def)
  have "slice (map Low (rows data)) (Suc i) (min (length (rows data)) (i + nat 1)) = []"
    by (simp add: slice_def)
  then show "calculate_future_low data 1 ! i = None"
    using forward_slice [of 1 i "map Low (rows data)"] i
    by (simp add: future_low_nth [OF i'] nan_min_def present_def)
next
  fix V i assume "Suc i = length (rows data)"
  then have "i < length (rows data)" and "\<not> Suc i < length (rows data)" by simp_all
  then show "calculate_future_high data V ! i = High (rows data ! i)"
    and "calculate_future_low data V ! i = Low (rows data ! i)"
    by (simp_all add: future_high_nth future_low_nth)
next
  fix V i assume i: "Suc i < length (rows data)"
  then have i': "i < length (rows data)" by simp
  let ?n = "length (rows data)"
  let ?b = "py_bound ?n (min (int ?n) (int i + V))"
  have "calculate_future_high data V ! i = nan_max (slice (map High (rows data)) (Suc i) ?b)"
    using i by (simp add: future_high_nth [OF i'] iloc_slice_def py_bound_start)
  moreover
  have "calculate_future_low data V ! i = nan_min (slice (map Low (rows data)) (Suc i) ?b)"
    using i by (simp add: future_low_nth [OF i'] iloc_slice_def py_bound_start)
  ultimately
  show "\<exists>a b. i < a \<and>
         calculate_future_high data V ! i = nan_max (slice (map High (rows data)) a b) \<and>
         calculate_future_low data V ! i = nan_min (slice (map Low (rows data)) a b)"
    by (intro exI [of _ "Suc i"] exI [of _ ?b]) simp
qed

text \<open>The five-day series with \<open>V = 1\<close>: row 0 has the high 10 and the low 5, and its
  forward high and low are NaN; the last row keeps its own 11 and 6.\<close>

theorem forward_window_one_witness:
  "calculate_future_high five_days_frame 1 ! 0 = None \<and>
   calculate_future_low five_days_frame 1 ! 0 = None \<and>
   High (rows five_days_frame ! 0) = Some 10 \<and>
   Low (rows five_days_frame ! 0) = Some 5 \<and>
   calculate_future_high five_days_frame 1 ! 4 = Some 11 \<and>
   calculate_future_low five_days_frame 1 ! 4 = Some 6"
proof -
  have n: "length (rows five_days_frame) = 5"
    by (simp add: five_days_frame_def five_days_def)
  have r: "High (rows five_days_frame ! 0) = Some 10" "Low (rows five_days_frame ! 0) = Some 5"
    "High (rows five_days_frame ! 4) = Some 11" "Low (rows five_days_frame ! 4) = Some 6"
    by (simp_all add: five_days_frame_def five_days_def mk_bar_def)
  note T = forward_window_one_is_nan [of five_days_frame, unfolded n]
  from T have "Suc 0 < (5::nat) \<longrightarrow>
      calculate_future_high five_days_frame 1 ! 0 = None \<and>
      calculate_future_low five_days_frame 1 ! 0 = None"
    by blast
  moreover from T have "Suc 4 = (5::nat) \<longrightarrow>
      calculate_future_high five_days_frame 1 ! 4 = High (rows five_days_frame ! 4) \<and>
      calculate_future_low five_days_frame 1 ! 4 = Low (rows five_days_frame ! 4)"
    by blast
  ultimately show ?thesis
    using r by simp
qed

subsection \<open>C3: the placeholder of the first rows\<close>

text \<open>
  C3. For every series, every window length \<open>W \<ge> 1\<close> and every row \<open>i < W-1\<close>,
  \<open>add_historical_metrics\<close> stores the literal \<open>0\<close> in the days-since-high and the
  days-since-low column at row \<open>i\<close>: an integer, not None, and not what
  \<open>days_since_high\<close> or \<open>days_since_low\<close> would return for that row.
\<close>

theorem days_since_placeholder_zero:
  assumes "1 \<le> W" and "i < length (rows data)" and "int i < W - 1"
  shows "\<exists>out since_high since_low.
           add_historical_metrics data W = Inr out \<and>
           map_of (columns out) (col_name ''Days_Since_High_Last_'' W) = Some (DaysCol since_high) \<and>
           map_of (columns out) (col_name ''Days_Since_Low_Last_'' W) = Some (DaysCol since_low) \<and>
           length since_high = length (rows data) \<and>
           length since_low = length (rows data) \<and>
           since_high ! i = Some 0 \<and>
           since_low ! i = Some 0"
proof -
  from assms(1) obtain out where
    out: "add_historical_metrics data W = Inr out" and
    h: "map_of (columns out) (col_name ''Days_Since_High_Last_'' W)
          = Some (DaysCol (map (\<lambda>i. if W - 1 \<le> int i then projr (days_since_high data i W) else Some 0)
                             [0..<length (rows data)]))" and
    l: "map_of (columns out) (col_name ''Days_Since_Low_Last_'' W)
          = Some (DaysCol (map (\<lambda>i. if W - 1 \<le> int i then projr (days_since_low data i W) else Some 0)
                             [0..<length (rows data)]))"
    by (rule historical_columns)
  from assms(2,3) have
    "map (\<lambda>i. if W - 1 \<le> int i then projr (days_since_high data i W) else Some 0)
       [0..<length (rows data)] ! i = Some 0"
    "map (\<lambda>i. if W - 1 \<le> int i then projr (days_since_low data i W) else Some 0)
       [0..<length (rows data)] ! i = Some 0"
    by simp_all
  with out h l show ?thesis
    by (intro exI conjI) (assumption | simp)+
qed

lemma five_days_since_low_row1: "days_since_low five_days_frame 1 3 = Inr (Some 1)"
  by (simp add: days_since_low_def five_days_frame_def five_days_def mk_bar_def slice_def
      nan_min_def present_def ns_per_day_def Let_def)

text \<open>The five-day series with \<open>W = 3\<close>: row 1 gets 0 in both columns, although its low
  window has its minimum one day back.\<close>

theorem days_since_placeholder_witness:
  "(\<exists>out since_high since_low.
      add_historical_metrics five_days_frame 3 = Inr out \<and>
      map_of (columns out) (col_name ''Days_Since_High_Last_'' 3) = Some (DaysCol since_high) \<and>
      map_of (columns out) (col_name ''Days_Since_Low_Last_'' 3) = Some (DaysCol since_low) \<and>
      since_high ! 1 = Some 0 \<and> since_low ! 1 = Some 0) \<and>
   days_since_low five_days_frame 1 3 = Inr (Some 1)"
proof -
  have "(1::int) \<le> 3" and "1 < length (rows five_days_frame)" and "int 1 < 3 - 1"
    by (simp_all add: five_days_frame_def five_days_def)
  from days_since_placeholder_zero [OF this] five_days_since_low_row1 show ?thesis
    by blast
qed

subsection \<open>C4: days since the trailing extreme\<close>

text \<open>
  C4. For every series, every window length \<open>W \<ge> 1\<close> and every row \<open>i \<ge> W-1\<close>, the
  window of row \<open>i\<close> is the full range \<open>[i-W+1, i]\<close>, and the days-since-high column of
  \<open>add_historical_metrics\<close> holds at row \<open>i\<close> the whole days from the most recent date
  in the window whose high is the window maximum to the date of row \<open>i\<close> (None when the
  window holds no high). For dates at day granularity this is the difference of the two
  calendar days. In a series sorted by date the most recent such date is the date of
  the attaining row closest to \<open>i\<close>. The days-since-low column is the same with the
  lows and the window minimum.
\<close>

theorem days_since_extreme_is_gap_to_most_recent:
  fixes data :: dataframe and W :: int and i :: nat
  defines "rs \<equiv> rows data"
    and "J \<equiv> spec_trailing_window W i"
  defines "hmax \<equiv> Max (spec_values High rs J)"
    and "lmin \<equiv> Min (spec_values Low rs J)"
  assumes "1 \<le> W" and "i < length rs" and "W - 1 \<le> int i"
  shows "\<exists>out since_high since_low.
           add_historical_metrics data W = Inr out \<and>
           map_of (columns out) (col_name ''Days_Since_High_Last_'' W) = Some (DaysCol since_high) \<and>
           map_of (columns out) (col_name ''Days_Since_Low_Last_'' W) = Some (DaysCol since_low) \<and>
           J = {nat (int i - W + 1) .. i} \<and>
           since_high ! i =
             (if spec_values High rs J = {} then None
              else Some ((Date (rs ! i) - spec_most_recent_date High rs J hmax) div ns_per_day)) \<and>
           since_low ! i =
             (if spec_values Low rs J = {} then None
              else Some ((Date (rs ! i) - spec_most_recent_date Low rs J lmin) div ns_per_day)) \<and>
           ((\<forall>r \<in> set rs. Date r mod ns_per_day = 0) \<longrightarrow>
              (spec_values High rs J \<noteq> {} \<longrightarrow>
                 since_high ! i = Some (spec_calendar_day (Date (rs ! i))
                                        - spec_calendar_day (spec_most_recent_date High rs J hmax))) \<and>
              (spec_values Low rs J \<noteq> {} \<longrightarrow>
                 since_low ! i = Some (spec_calendar_day (Date (rs ! i))
                                       - spec_calendar_day (spec_most_recent_date Low rs J lmin)))) \<and>
           (sorted (map Date rs) \<longrightarrow>
              (spec_values High rs J \<noteq> {} \<longrightarrow>
                 spec_most_recent_date High rs J hmax
                   = Date (rs ! Max {j \<in> J. High (rs ! j) = Some hmax})) \<and>
              (spec_values Low rs J \<noteq> {} \<longrightarrow>
                 spec_most_recent_date Low rs J lmin
                   = Date (rs ! Max {j \<in> J. Low (rs ! j) = Some lmin})))"
proof -
  have W: "1 \<le> W" and i: "i < length (rows data)" and full: "W - 1 \<le> int i"
    using assms by simp_all
  from W obtain out where
    out: "add_historical_metrics data W = Inr out" and
    h: "map_of (columns out) (col_name ''Days_Since_High_Last_'' W)
          = Some (DaysCol (map (\<lambda>i. if W - 1 \<le> int i then projr (days_since_high data i W) else Some 0)
                             [0..<length (rows data)]))" and
    l: "map_of (columns out) (col_name ''Days_Since_Low_Last_'' W)
          = Some (DaysCol (map (\<lambda>i. if W - 1 \<le> int i then projr (days_since_low data i W) else Some 0)
                             [0..<length (rows data)]))"
    by (rule historical_columns)
  define sh where "sh = map (\<lambda>i. if W - 1 \<le> int i then projr (days_since_high data i W) else Some 0)
                             [0..<length (rows data)]"
  define sl where "sl = map (\<lambda>i. if W - 1 \<le> int i then projr (days_since_low data i W) else Some 0)
                             [0..<length (rows data)]"
  have finJ: "finite J" unfolding J_def by (rule finite_spec_trailing_window)
  have inJ: "\<And>j. j \<in> J \<Longrightarrow> j < length rs"
    unfolding J_def rs_def using i by (rule trailing_window_in_range)
  have win: "J = {nat (int i - W + 1) .. i}"
    unfolding J_def by (rule full_trailing_window [OF W full])
  have shi: "sh ! i =
             (if spec_values High rs J = {} then None
              else Some ((Date (rs ! i) - spec_most_recent_date High rs J hmax) div ns_per_day))"
    using i full by (simp add: sh_def days_since_high_eq [OF W i] rs_def J_def hmax_def)
  have sli: "sl ! i =
             (if spec_values Low rs J = {} then None
              else Some ((Date (rs ! i) - spec_most_recent_date Low rs J lmin) div ns_per_day))"
    using i full by (simp add: sl_def days_since_low_eq [OF W i] rs_def J_def lmin_def)
  have attH: "{j \<in> J. High (rs ! j) = Some hmax} \<noteq> {}" if "spec_values High rs J \<noteq> {}"
    unfolding hmax_def by (rule spec_values_attained(1) [OF finJ that])
  have attL: "{j \<in> J. Low (rs ! j) = Some lmin} \<noteq> {}" if "spec_values Low rs J \<noteq> {}"
    unfolding lmin_def by (rule spec_values_attained(2) [OF finJ that])
  have whole: "Date (rs ! i) mod ns_per_day = 0 \<and> spec_most_recent_date f rs J m mod ns_per_day = 0"
    if days: "\<forall>r \<in> set rs. Date r mod ns_per_day = 0" and att: "{j \<in> J. f (rs ! j) = Some m} \<noteq> {}"
    for f m
  proof -
    from most_recent_date_in [OF finJ att] obtain j where
      j: "j \<in> J" "spec_most_recent_date f rs J m = Date (rs ! j)" by blast
    from j(1) have "rs ! j \<in> set rs" by (simp add: inJ)
    moreover have "rs ! i \<in> set rs" using i by (simp add: rs_def)
    ultimately show ?thesis using days j(2) by simp
  qed
  have calH: "sh ! i = Some (spec_calendar_day (Date (rs ! i))
                             - spec_calendar_day (spec_most_recent_date High rs J hmax))"
    if "\<forall>r \<in> set rs. Date r mod ns_per_day = 0" and ne: "spec_values High rs J \<noteq> {}"
    using whole [OF that(1) attH [OF ne]] ne by (simp add: shi whole_days_gap)
  have calL: "sl ! i = Some (spec_calendar_day (Date (rs ! i))
                             - spec_calendar_day (spec_most_recent_date Low rs J lmin))"
    if "\<forall>r \<in> set rs. Date r mod ns_per_day = 0" and ne: "spec_values Low rs J \<noteq> {}"
    using whole [OF that(1) attL [OF ne]] ne by (simp add: sli whole_days_gap)
  have tieH: "spec_most_recent_date High rs J hmax = Date (rs ! Max {j \<in> J. High (rs ! j) = Some hmax})"
    if "sorted (map Date rs)" and ne: "spec_values High rs J \<noteq> {}"
    by (rule most_recent_date_sorted [OF finJ attH [OF ne] inJ that(1)])
  have tieL: "spec_most_recent_date Low rs J lmin = Date (rs ! Max {j \<in> J. Low (rs ! j) = Some lmin})"
    if "sorted (map Date rs)" and ne: "spec_values Low rs J \<noteq> {}"
    by (rule most_recent_date_sorted [OF finJ attL [OF ne] inJ that(1)])
  from out h [folded sh_def] l [folded sl_def] win shi sli calH calL tieH tieL
  show ?thesis
    by (intro exI [of _ out] exI [of _ sh] exI [of _ sl]) blast
qed


lemma tied_days_since_high_row3: "days_since_high tied_days_frame 3 3 = Inr (Some 1)"
  by (simp add: days_since_high_def tied_days_frame_def tied_days_def mk_bar_def slice_def
      nan_max_def present_def ns_per_day_def Let_def)

lemma tied_days_since_low_row3: "days_since_low tied_days_frame 3 3 = Inr (Some 1)"
  by (simp add: days_since_low_def tied_days_frame_def tied_days_def mk_bar_def slice_def
      nan_min_def present_def ns_per_day_def Let_def)

lemma tied_days_whole: "\<forall>r \<in> set (rows tied_days_frame). Date r mod ns_per_day = 0"
  by (simp add: tied_days_frame_def tied_days_def mk_bar_def)

lemma tied_days_sorted: "sorted (map Date (rows tied_days_frame))"
  by (simp add: tied_days_frame_def tied_days_def mk_bar_def ns_per_day_def)

text \<open>
  The four-day series with \<open>W = 3\<close> at row 3: the window holds the high 9 on rows 1 and
  2, and the low 2 on the same rows; both columns hold 1, the distance to row 2.
\<close>

theorem days_since_extreme_witness:
  "(\<exists>out since_high since_low.
      add_historical_metrics tied_days_frame 3 = Inr out \<and>
      map_of (columns out) (col_name ''Days_Since_High_Last_'' 3) = Some (DaysCol since_high) \<and>
      map_of (columns out) (col_name ''Days_Since_Low_Last_'' 3) = Some (DaysCol since_low) \<and>
      since_high ! 3 = Some 1 \<and> since_low ! 3 = Some 1) \<and>
   spec_trailing_window 3 3 = {1 .. 3} \<and>
   spec_calendar_day (Date (rows tied_days_frame ! 3))
     - spec_calendar_day
         (spec_most_recent_date High (rows tied_days_frame) (spec_trailing_window 3 3)
            (Max (spec_values High (rows tied_days_frame) (spec_trailing_window 3 3)))) = 1 \<and>
   spec_most_recent_date High (rows tied_days_frame) (spec_trailing_window 3 3)
       (Max (spec_values High (rows tied_days_frame) (spec_trailing_window 3 3)))
     = Date (rows tied_days_frame !
               Max {j \<in> spec_trailing_window 3 3.
                      High (rows tied_days_frame ! j)
                        = Some (Max (spec_values High (rows tied_days_frame)
                                       (spec_trailing_window 3 3)))})"
proof -
  let ?rs = "rows tied_days_frame"
  let ?J = "spec_trailing_window 3 3"
  have pre: "(1::int) \<le> 3" "3 < length ?rs" "(3::int) - 1 \<le> int 3"
    by (simp_all add: tied_days_frame_def tied_days_def)
  from historical_columns [OF pre(1), of tied_days_frame] obtain out0 where
    o0: "add_historical_metrics tied_days_frame 3 = Inr out0" and
    h0: "map_of (columns out0) (col_name ''Days_Since_High_Last_'' 3)
          = Some (DaysCol (map (\<lambda>i. if (3::int) - 1 \<le> int i
                                     then projr (days_since_high tied_days_frame i 3) else Some 0)
                             [0..<length ?rs]))" and
    l0: "map_of (columns out0) (col_name ''Days_Since_Low_Last_'' 3)
          = Some (DaysCol (map (\<lambda>i. if (3::int) - 1 \<le> int i
                                     then projr (days_since_low tied_days_frame i 3) else Some 0)
                             [0..<length ?rs]))"
    by blast
  from days_since_extreme_is_gap_to_most_recent [OF pre] obtain out sh sl where
    o: "add_historical_metrics tied_days_frame 3 = Inr out" and
    h: "map_of (columns out) (col_name ''Days_Since_High_Last_'' 3) = Some (DaysCol sh)" and
    l: "map_of (columns out) (col_name ''Days_Since_Low_Last_'' 3) = Some (DaysCol sl)" and
    win: "?J = {nat (int 3 - 3 + 1) .. 3}" and
    shi: "sh ! 3 =
            (if spec_values High ?rs ?J = {} then None
             else Some ((Date (?rs ! 3)
                         - spec_most_recent_date High ?rs ?J (Max (spec_values High ?rs ?J)))
                        div ns_per_day))" and
    cal: "(\<forall>r \<in> set ?rs. Date r mod ns_per_day = 0) \<longrightarrow>
            (spec_values High ?rs ?J \<noteq> {} \<longrightarrow>
               sh ! 3 = Some (spec_calendar_day (Date (?rs ! 3))
                              - spec_calendar_day
                                  (spec_most_recent_date High ?rs ?J (Max (spec_values High ?rs ?J)))))" and
    tie: "sorted (map Date ?rs) \<longrightarrow>
            (spec_values High ?rs ?J \<noteq> {} \<longrightarrow>
               spec_most_recent_date High ?rs ?J (Max (spec_values High ?rs ?J))
                 = Date (?rs ! Max {j \<in> ?J. High (?rs ! j) = Some (Max (spec_values High ?rs ?J))}))"
    by blast
  from o o0 have same: "out0 = out" by simp
  have n4: "length ?rs = 4"
    by (simp add: tied_days_frame_def tied_days_def)
  from h h0 have "sh = map (\<lambda>i. if (3::int) - 1 \<le> int i
                                 then projr (days_since_high tied_days_frame i 3) else Some 0)
                         [0..<length ?rs]"
    unfolding same by simp
  then have sh3: "sh ! 3 = Some 1"
    by (simp add: n4 tied_days_since_high_row3)
  from l l0 have "sl = map (\<lambda>i. if (3::int) - 1 \<le> int i
                                 then projr (days_since_low tied_days_frame i 3) else Some 0)
                         [0..<length ?rs]"
    unfolding same by simp
  then have sl3: "sl ! 3 = Some 1"
    by (simp add: n4 tied_days_since_low_row3)
  from shi sh3 have ne: "spec_values High ?rs ?J \<noteq> {}"
    by (auto split: if_splits)
  from cal ne tied_days_whole sh3 have c:
    "spec_calendar_day (Date (?rs ! 3))
       - spec_calendar_day (spec_most_recent_date High ?rs ?J (Max (spec_values High ?rs ?J))) = 1"
    by simp
  from tie ne tied_days_sorted have t:
    "spec_most_recent_date High ?rs ?J (Max (spec_values High ?rs ?J))
       = Date (?rs ! Max {j \<in> ?J. High (?rs ! j) = Some (Max (spec_values High ?rs ?J))})"
    by simp
  from win have w: "?J = {1 .. 3}" by simp
  from o h l sh3 sl3 have "\<exists>out since_high since_low.
      add_historical_metrics tied_days_frame 3 = Inr out \<and>
      map_of (columns out) (col_name ''Days_Since_High_Last_'' 3) = Some (DaysCol since_high) \<and>
      map_of (columns out) (col_name ''Days_Since_Low_Last_'' 3) = Some (DaysCol since_low) \<and>
      since_high ! 3 = Some 1 \<and> since_low ! 3 = Some 1"
    by blast
  with w c t show ?thesis
    by (intro conjI)
qed

subsection \<open>C5: the normalized series\<close>

text \<open>
  C5, as the code has it. For every input table with parsed dates and any row order, the
  normalization at the head of \<open>calculate_metrics\<close> returns the same rows (none dropped,
  none added) in ascending date order, labelled \<open>0 .. n-1\<close>. The order is
  non-decreasing: the dates of the result are strictly increasing, that is free of
  duplicates, exactly when no two input rows share a date. Nothing removes a repeated
  date.
\<close>

theorem normalize_series_sorted_dense:
  "map fst (normalize_series df) = map int [0..<length df] \<and>
   mset (map snd (normalize_series df)) = mset (map snd df) \<and>
   sorted (map (\<lambda>p. Date (snd p)) (normalize_series df)) \<and>
   (sorted_wrt (<) (map (\<lambda>p. Date (snd p)) (normalize_series df)) \<longleftrightarrow>
      distinct (map (\<lambda>p. Date (snd p)) df))"
proof -
  have "sorted_wrt (<) (map (\<lambda>p. Date (snd p)) (normalize_series df)) \<longleftrightarrow>
        distinct (map (\<lambda>p. Date (snd p)) df)"
    using sorted_normalize_series [of df] distinct_dates_normalize_series [of df]
    by (simp add: strict_sorted_iff)
  with index_normalize_series [of df] mset_rows_normalize_series [of df]
    sorted_normalize_series [of df]
  show ?thesis
    by (intro conjI)
qed

lemma normalize_two_batches:
  "normalize_series two_batches
   = [(0, mk_bar 1 8 12 6 11), (1, mk_bar 1 8 12 6 11), (2, mk_bar 2 8 9 4 6)]"
  by (simp add: normalize_series_def reset_index_def sort_values_Date_def two_batches_def
      mk_bar_def ns_per_day_def)

text \<open>Two batches that share their boundary day: the result is sorted and densely
  labelled, and the shared day is still there twice.\<close>

theorem normalize_series_witness:
  "map fst (normalize_series two_batches) = [0, 1, 2] \<and>
   map (\<lambda>p. Date (snd p)) (normalize_series two_batches)
     = [ns_per_day, ns_per_day, 2 * ns_per_day] \<and>
   \<not> distinct (map (\<lambda>p. Date (snd p)) two_batches) \<and>
   \<not> sorted_wrt (<) (map (\<lambda>p. Date (snd p)) (normalize_series two_batches))"
proof -
  have d: "\<not> distinct (map (\<lambda>p. Date (snd p)) two_batches)"
    by (simp add: two_batches_def mk_bar_def)
  from normalize_series_sorted_dense [of two_batches] d
  have "\<not> sorted_wrt (<) (map (\<lambda>p. Date (snd p)) (normalize_series two_batches))"
    by blast
  moreover from normalize_series_sorted_dense [of two_batches]
  have "map fst (normalize_series two_batches) = map int [0..<length two_batches]"
    by blast
  then have "map fst (normalize_series two_batches) = [0, 1, 2]"
    by (simp add: two_batches_def)
  moreover have "map (\<lambda>p. Date (snd p)) (normalize_series two_batches)
     = [ns_per_day, ns_per_day, 2 * ns_per_day]"
    by (simp add: normalize_two_batches mk_bar_def)
  ultimately show ?thesis
    using d by simp
qed

text \<open>The claim as stated asks for strictly increasing dates on every input; the two
  batches above normalize to a series that repeats a date.\<close>

theorem normalize_series_keeps_duplicate_dates:
  "\<not> (sorted_wrt (<) (map (\<lambda>p. Date (snd p)) (normalize_series two_batches)) \<and>
      distinct (map (\<lambda>p. Date (snd p)) (normalize_series two_batches)))"
  by (simp add: normalize_two_batches mk_bar_def)

subsection \<open>C6: the percentage difference\<close>




subsection \<open>C8: a reference of zero\<close>

text \<open>
  C8. \<open>calculate_pct_diff\<close> has no error result. At every row whose reference is 0 its
  value is not finite: NaN when the current value is 0 or missing, an infinity
  otherwise. In the frame that \<open>calculate_metrics\<close> returns (it returns one for every
  \<open>W \<ge> 1\<close>), each of the four percentage columns holds such a non-finite value at every
  row where its extreme column, trailing or forward, high or low, holds 0.
\<close>

theorem pct_diff_zero_reference_not_finite:
  "(\<forall>i. i < length current \<and> i < length reference \<and> reference ! i = Some 0 \<longrightarrow>
      \<not> is_finite (calculate_pct_diff current reference ! i) \<and>
      (calculate_pct_diff current reference ! i = NaN \<longleftrightarrow>
         current ! i = None \<or> current ! i = Some 0)) \<and>
   (1 \<le> W \<longrightarrow>
      (\<exists>out high_last low_last high_next low_next pct_hl pct_ll pct_hn pct_ln.
         calculate_metrics df W V = Inr out \<and>
         map_of (columns out) (col_name ''High_Last_'' W) = Some (PriceCol high_last) \<and>
         map_of (columns out) (col_name ''Low_Last_'' W) = Some (PriceCol low_last) \<and>
         map_of (columns out) (col_name ''High_Next_'' V) = Some (PriceCol high_next) \<and>
         map_of (columns out) (col_name ''Low_Next_'' V) = Some (PriceCol low_next) \<and>
         map_of (columns out) (col_name ''%_Diff_From_High_Last_'' W) = Some (PctCol pct_hl) \<and>
         map_of (columns out) (col_name ''%_Diff_From_Low_Last_'' W) = Some (PctCol pct_ll) \<and>
         map_of (columns out) (col_name ''%_Diff_From_High_Next_'' V) = Some (PctCol pct_hn) \<and>
         map_of (columns out) (col_name ''%_Diff_From_Low_Next_'' V) = Some (PctCol pct_ln) \<and>
         (\<forall>i < length (rows out).
            (high_last ! i = Some 0 \<longrightarrow> \<not> is_finite (pct_hl ! i)) \<and>
            (low_last ! i = Some 0 \<longrightarrow> \<not> is_finite (pct_ll ! i)) \<and>
            (high_next ! i = Some 0 \<longrightarrow> \<not> is_finite (pct_hn ! i)) \<and>
            (low_next ! i = Some 0 \<longrightarrow> \<not> is_finite (pct_ln ! i)))))"
proof (intro conjI impI allI)
  fix i
  assume a: "i < length current \<and> i < length reference \<and> reference ! i = Some 0"
  then have i: "i < length current" "i < length reference" "reference ! i = Some 0"
    by simp_all
  show "\<not> is_finite (calculate_pct_diff current reference ! i)"
    by (rule pct_zero_reference(1) [OF i])
  show "calculate_pct_diff current reference ! i = NaN \<longleftrightarrow>
        current ! i = None \<or> current ! i = Some 0"
    by (rule pct_zero_reference(2) [OF i])
next
  assume W: "1 \<le> W"
  let ?d0 = "\<lparr>rows = map snd (normalize_series df), derived = []\<rparr>"
  let ?close = "map Close (rows ?d0)"
  let ?hl = "projr (calculate_historical_high ?d0 W)"
  let ?ll = "projr (calculate_historical_low ?d0 W)"
  let ?hn = "calculate_future_high ?d0 V"
  let ?ln = "calculate_future_low ?d0 V"
  from calculate_metrics_columns [OF W, of df V] obtain out where
    o: "calculate_metrics df W V = Inr out" and
    r: "rows out = map snd (normalize_series df)" and
    c: "map_of (columns out) (col_name ''High_Last_'' W) = Some (PriceCol ?hl)"
       "map_of (columns out) (col_name ''Low_Last_'' W) = Some (PriceCol ?ll)"
       "map_of (columns out) (col_name ''High_Next_'' V) = Some (PriceCol ?hn)"
       "map_of (columns out) (col_name ''Low_Next_'' V) = Some (PriceCol ?ln)"
       "map_of (columns out) (col_name ''%_Diff_From_High_Last_'' W)
          = Some (PctCol (calculate_pct_diff ?close ?hl))"
       "map_of (columns out) (col_name ''%_Diff_From_Low_Last_'' W)
          = Some (PctCol (calculate_pct_diff ?close ?ll))"
       "map_of (columns out) (col_name ''%_Diff_From_High_Next_'' V)
          = Some (PctCol (calculate_pct_diff ?close ?hn))"
       "map_of (columns out) (col_name ''%_Diff_From_Low_Next_'' V)
          = Some (PctCol (calculate_pct_diff ?close ?ln))"
    by blast
  have n: "length ?close = length (rows out)" "length ?hl = length (rows out)"
    "length ?ll = length (rows out)" "length ?hn = length (rows out)"
    "length ?ln = length (rows out)"
    using W by (simp_all add: r length_historical_high length_historical_low
        length_future_high length_future_low)
  have z: "\<not> is_finite (calculate_pct_diff ?close ref ! i)"
    if "i < length (rows out)" "length ref = length (rows out)" "ref ! i = Some 0" for ref i
    using that n(1) by (intro pct_zero_reference(1)) simp_all
  have rowsz: "\<forall>i < length (rows out).
            (?hl ! i = Some 0 \<longrightarrow> \<not> is_finite (calculate_pct_diff ?close ?hl ! i)) \<and>
            (?ll ! i = Some 0 \<longrightarrow> \<not> is_finite (calculate_pct_diff ?close ?ll ! i)) \<and>
            (?hn ! i = Some 0 \<longrightarrow> \<not> is_finite (calculate_pct_diff ?close ?hn ! i)) \<and>
            (?ln ! i = Some 0 \<longrightarrow> \<not> is_finite (calculate_pct_diff ?close ?ln ! i))"
    using z n by blast
  show "\<exists>out high_last low_last high_next low_next pct_hl pct_ll pct_hn pct_ln.
         calculate_metrics df W V = Inr out \<and>
         map_of (columns out) (col_name ''High_Last_'' W) = Some (PriceCol high_last) \<and>
         map_of (columns out) (col_name ''Low_Last_'' W) = Some (PriceCol low_last) \<and>
         map_of (columns out) (col_name ''High_Next_'' V) = Some (PriceCol high_next) \<and>
         map_of (columns out) (col_name ''Low_Next_'' V) = Some (PriceCol low_next) \<and>
         map_of (columns out) (col_name ''%_Diff_From_High_Last_'' W) = Some (PctCol pct_hl) \<and>
         map_of (columns out) (col_name ''%_Diff_From_Low_Last_'' W) = Some (PctCol pct_ll) \<and>
         map_of (columns out) (col_name ''%_Diff_From_High_Next_'' V) = Some (PctCol pct_hn) \<and>
         map_of (columns out) (col_name ''%_Diff_From_Low_Next_'' V) = Some (PctCol pct_ln) \<and>
         (\<forall>i < length (rows out).
            (high_last ! i = Some 0 \<longrightarrow> \<not> is_finite (pct_hl ! i)) \<and>
            (low_last ! i = Some 0 \<longrightarrow> \<not> is_finite (pct_ll ! i)) \<and>
            (high_next ! i = Some 0 \<longrightarrow> \<not> is_finite (pct_hn ! i)) \<and>
            (low_next ! i = Some 0 \<longrightarrow> \<not> is_finite (pct_ln ! i)))"
    by (intro exI conjI) (rule o c rowsz)+
qed


lemma zero_low_rows:
  "map snd (normalize_series zero_low_input) = [mk_bar 0 1 2 0 1, mk_bar 1 1 3 1 2]"
  by (simp add: normalize_series_def reset_index_def sort_values_Date_def zero_low_input_def
      mk_bar_def ns_per_day_def)

lemma zero_low_trailing_low:
  "projr (calculate_historical_low \<lparr>rows = map snd (normalize_series zero_low_input), derived = []\<rparr> 1)
   = [Some 0, Some 1]"
  unfolding zero_low_rows
  by (simp add: calculate_historical_low_def rolling_min_def nan_min_def present_def slice_def
      mk_bar_def)

lemma pct_zero_examples:
  "calculate_pct_diff [Some 1, Some 0, None] [Some 0, Some 0, Some 0] = [PInf, NaN, NaN]"
  by (simp add: calculate_pct_diff_def get_cell_def fsub_def fdiv_def fmul100_def fround_def)

text \<open>A close of 1, of 0 and a missing close against a reference of 0; and the two-day
  series whose first low is 0, with \<open>W = V = 1\<close>.\<close>

theorem pct_diff_zero_reference_witness:
  "calculate_pct_diff [Some 1, Some 0, None] [Some 0, Some 0, Some 0] = [PInf, NaN, NaN] \<and>
   \<not> is_finite (calculate_pct_diff [Some 1, Some 0, None] [Some 0, Some 0, Some 0] ! 0) \<and>
   (\<exists>out low_last pct_ll.
      calculate_metrics zero_low_input 1 1 = Inr out \<and>
      map_of (columns out) (col_name ''Low_Last_'' 1) = Some (PriceCol low_last) \<and>
      map_of (columns out) (col_name ''%_Diff_From_Low_Last_'' 1) = Some (PctCol pct_ll) \<and>
      low_last ! 0 = Some 0 \<and> \<not> is_finite (pct_ll ! 0))"
proof -
  note T = pct_diff_zero_reference_not_finite
    [of "[Some 1, Some 0, None]" "[Some 0, Some 0, Some 0]" 1 zero_low_input 1]
  from T have a: "\<not> is_finite (calculate_pct_diff [Some 1, Some 0, None] [Some 0, Some 0, Some 0] ! 0)"
    by simp
  have W: "(1::int) \<le> 1" by simp
  from conjunct2 [OF T, THEN mp, OF W] obtain out hl ll hn ln phl pll phn pln where
    o: "calculate_metrics zero_low_input 1 1 = Inr out" and
    c1: "map_of (columns out) (col_name ''High_Last_'' 1) = Some (PriceCol hl)" and
    c2: "map_of (columns out) (col_name ''Low_Last_'' 1) = Some (PriceCol ll)" and
    c3: "map_of (columns out) (col_name ''High_Next_'' 1) = Some (PriceCol hn)" and
    c4: "map_of (columns out) (col_name ''Low_Next_'' 1) = Some (PriceCol ln)" and
    c5: "map_of (columns out) (col_name ''%_Diff_From_High_Last_'' 1) = Some (PctCol phl)" and
    c6: "map_of (columns out) (col_name ''%_Diff_From_Low_Last_'' 1) = Some (PctCol pll)" and
    c7: "map_of (columns out) (col_name ''%_Diff_From_High_Next_'' 1) = Some (PctCol phn)" and
    c8: "map_of (columns out) (col_name ''%_Diff_From_Low_Next_'' 1) = Some (PctCol pln)" and
    z: "\<forall>i < length (rows out).
            (hl ! i = Some 0 \<longrightarrow> \<not> is_finite (phl ! i)) \<and>
            (ll ! i = Some 0 \<longrightarrow> \<not> is_finite (pll ! i)) \<and>
            (hn ! i = Some 0 \<longrightarrow> \<not> is_finite (phn ! i)) \<and>
            (ln ! i = Some 0 \<longrightarrow> \<not> is_finite (pln ! i))"
    by (elim exE conjE) (rule that, assumption+)
  from calculate_metrics_columns [OF W, of zero_low_input 1] obtain out0 where
    o0: "calculate_metrics zero_low_input 1 1 = Inr out0" and
    r0: "rows out0 = map snd (normalize_series zero_low_input)" and
    c0: "map_of (columns out0) (col_name ''Low_Last_'' 1)
           = Some (PriceCol (projr (calculate_historical_low
                \<lparr>rows = map snd (normalize_series zero_low_input), derived = []\<rparr> 1)))"
    by blast
  from o o0 have same: "out0 = out" by simp
  from c2 c0 have ll: "ll = [Some 0, Some 1]"
    unfolding same zero_low_trailing_low by simp
  from r0 have n: "0 < length (rows out)"
    unfolding same zero_low_rows by simp
  from ll have l0: "ll ! 0 = Some 0" by simp
  from z n l0 have "\<not> is_finite (pll ! 0)" by blast
  with o c2 c6 l0 have "\<exists>out low_last pct_ll.
      calculate_metrics zero_low_input 1 1 = Inr out \<and>
      map_of (columns out) (col_name ''Low_Last_'' 1) = Some (PriceCol low_last) \<and>
      map_of (columns out) (col_name ''%_Diff_From_Low_Last_'' 1) = Some (PctCol pct_ll) \<and>
      low_last ! 0 = Some 0 \<and> \<not> is_finite (pct_ll ! 0)"
    by blast
  with pct_zero_examples a show ?thesis
    by (intro conjI)
qed

subsection \<open>C7: selecting the feature and target columns\<close>

text \<open>
  C7. For every series and all \<open>W \<ge> 1\<close> and \<open>V\<close>, \<open>calculate_metrics\<close> returns a frame from
  which the column selection of \<open>train_model\<close> with the same \<open>W\<close> and \<open>V\<close> succeeds: it
  yields the four feature columns and the two target columns, in the order of the name
  lists. With any other \<open>W'\<close> the selection of the features raises a KeyError that
  lists the four feature names built from \<open>W'\<close>, none of which the frame has; with the
  same \<open>W\<close> and any other \<open>V'\<close> the selection of the targets raises a KeyError that lists
  the two target names built from \<open>V'\<close>. No default takes the place of a missing column.
\<close>

theorem train_model_selection_roundtrip:
  assumes "1 \<le> W"
  shows "\<exists>out. calculate_metrics df W V = Inr out \<and>
           (\<exists>X y. train_model_Xy out W V = Inr (X, y) \<and>
                  map fst X = feature_columns W \<and> map fst y = target_columns V \<and>
                  (\<forall>k c. (k, c) \<in> set X \<union> set y \<longrightarrow> map_of (columns out) k = Some c)) \<and>
           (\<forall>W' V'. W' \<noteq> W \<longrightarrow>
              train_model_Xy out W' V' = Inl (KeyError (feature_columns W')) \<and>
              (\<forall>k \<in> set (feature_columns W'). map_of (columns out) k = None)) \<and>
           (\<forall>V'. V' \<noteq> V \<longrightarrow>
              train_model_Xy out W V' = Inl (KeyError (target_columns V')) \<and>
              (\<forall>k \<in> set (target_columns V'). map_of (columns out) k = None))"
proof -
  from calculate_metrics_keys [OF assms, of df V] obtain out where
    o: "calculate_metrics df W V = Inr out" and
    keys: "map fst (columns out) =
       [''Date'', ''Open'', ''High'', ''Low'', ''Close'',
        col_name ''High_Last_'' W, col_name ''Days_Since_High_Last_'' W,
        col_name ''%_Diff_From_High_Last_'' W, col_name ''Low_Last_'' W,
        col_name ''Days_Since_Low_Last_'' W, col_name ''%_Diff_From_Low_Last_'' W,
        col_name ''High_Next_'' V, col_name ''%_Diff_From_High_Next_'' V,
        col_name ''Low_Next_'' V, col_name ''%_Diff_From_Low_Next_'' V]"
    by blast
  have fin: "k \<in> set (map fst (columns out))" if "k \<in> set (feature_columns W)" for k
    using that unfolding keys by (auto simp: feature_columns_def)
  have tin: "k \<in> set (map fst (columns out))" if "k \<in> set (target_columns V)" for k
    using that unfolding keys by (auto simp: target_columns_def)
  have fout: "k \<notin> set (map fst (columns out))" if "W' \<noteq> W" "k \<in> set (feature_columns W')" for k W'
    using that unfolding keys by (auto simp: feature_columns_def col_name_def str_int_inject)
  have tout: "k \<notin> set (map fst (columns out))" if "V' \<noteq> V" "k \<in> set (target_columns V')" for k V'
    using that unfolding keys by (auto simp: target_columns_def col_name_def str_int_inject)
  let ?X = "map (\<lambda>k. (k, the (map_of (columns out) k))) (feature_columns W)"
  let ?y = "map (\<lambda>k. (k, the (map_of (columns out) k))) (target_columns V)"
  have sX: "select_columns out (feature_columns W) = Inr ?X"
    by (rule select_columns_present) (rule fin)
  have sy: "select_columns out (target_columns V) = Inr ?y"
    by (rule select_columns_present) (rule tin)
  have ok: "train_model_Xy out W V = Inr (?X, ?y)"
    by (simp add: train_model_Xy_def and_then_def sX sy)
  have look: "map_of (columns out) k = Some c" if "(k, c) \<in> set ?X \<union> set ?y" for k c
  proof -
    from that have "k \<in> set (map fst (columns out))" and c: "c = the (map_of (columns out) k)"
      using fin tin by auto
    then have "map_of (columns out) k \<noteq> None"
      by (simp add: map_of_eq_None_iff)
    with c show ?thesis by auto
  qed
  have first: "\<exists>X y. train_model_Xy out W V = Inr (X, y) \<and>
                  map fst X = feature_columns W \<and> map fst y = target_columns V \<and>
                  (\<forall>k c. (k, c) \<in> set X \<union> set y \<longrightarrow> map_of (columns out) k = Some c)"
  proof (intro exI conjI allI impI)
    show "train_model_Xy out W V = Inr (?X, ?y)" by (rule ok)
    show "map fst ?X = feature_columns W" by (simp add: comp_def)
    show "map fst ?y = target_columns V" by (simp add: comp_def)
    fix k c assume "(k, c) \<in> set ?X \<union> set ?y"
    then show "map_of (columns out) k = Some c" by (rule look)
  qed
  have second: "train_model_Xy out W' V' = Inl (KeyError (feature_columns W')) \<and>
              (\<forall>k \<in> set (feature_columns W'). map_of (columns out) k = None)"
    if ne: "W' \<noteq> W" for W' V'
  proof -
    have "select_columns out (feature_columns W') = Inl (KeyError (feature_columns W'))"
      by (rule select_columns_absent [OF fout [OF ne] distinct_feature_columns])
        (simp_all add: feature_columns_def)
    then have "train_model_Xy out W' V' = Inl (KeyError (feature_columns W'))"
      by (simp add: train_model_Xy_def and_then_def)
    moreover have "\<forall>k \<in> set (feature_columns W'). map_of (columns out) k = None"
      using fout [OF ne] by (simp add: map_of_eq_None_iff)
    ultimately show ?thesis by simp
  qed
  have third: "train_model_Xy out W V' = Inl (KeyError (target_columns V')) \<and>
              (\<forall>k \<in> set (target_columns V'). map_of (columns out) k = None)"
    if ne: "V' \<noteq> V" for V'
  proof -
    have "select_columns out (target_columns V') = Inl (KeyError (target_columns V'))"
      by (rule select_columns_absent [OF tout [OF ne] distinct_target_columns])
        (simp_all add: target_columns_def)
    then have "train_model_Xy out W V' = Inl (KeyError (target_columns V'))"
      by (simp add: train_model_Xy_def and_then_def sX)
    moreover have "\<forall>k \<in> set (target_columns V'). map_of (columns out) k = None"
      using tout [OF ne] by (simp add: map_of_eq_None_iff)
    ultimately show ?thesis by simp
  qed
  from o first second third show ?thesis
    by blast
qed


lemma names_for_2_3_5:
  "feature_columns 2 = [''Days_Since_High_Last_2_Days'', ''%_Diff_From_High_Last_2_Days'',
                        ''Days_Since_Low_Last_2_Days'', ''%_Diff_From_Low_Last_2_Days'']"
  "target_columns 2 = [''%_Diff_From_High_Next_2_Days'', ''%_Diff_From_Low_Next_2_Days'']"
  "feature_columns 3 = [''Days_Since_High_Last_3_Days'', ''%_Diff_From_High_Last_3_Days'',
                        ''Days_Since_Low_Last_3_Days'', ''%_Diff_From_Low_Last_3_Days'']"
  "target_columns 5 = [''%_Diff_From_High_Next_5_Days'', ''%_Diff_From_Low_Next_5_Days'']"
  by (simp_all add: feature_columns_def target_columns_def col_name_def str_int_def
      str_nat.simps digit_char_def)

text \<open>The two-batch series annotated with \<open>W = V = 2\<close>: the selection succeeds with
  \<open>(2, 2)\<close>, names the four missing feature columns with \<open>W' = 3\<close>, and the two missing
  target columns with \<open>V' = 5\<close>.\<close>

theorem train_model_selection_witness:
  "\<exists>out. calculate_metrics two_batches 2 2 = Inr out \<and>
     (\<exists>X y. train_model_Xy out 2 2 = Inr (X, y) \<and>
        map fst X = [''Days_Since_High_Last_2_Days'', ''%_Diff_From_High_Last_2_Days'',
                     ''Days_Since_Low_Last_2_Days'', ''%_Diff_From_Low_Last_2_Days''] \<and>
        map fst y = [''%_Diff_From_High_Next_2_Days'', ''%_Diff_From_Low_Next_2_Days'']) \<and>
     train_model_Xy out 3 2
       = Inl (KeyError [''Days_Since_High_Last_3_Days'', ''%_Diff_From_High_Last_3_Days'',
                        ''Days_Since_Low_Last_3_Days'', ''%_Diff_From_Low_Last_3_Days'']) \<and>
     train_model_Xy out 2 5
       = Inl (KeyError [''%_Diff_From_High_Next_5_Days'', ''%_Diff_From_Low_Next_5_Days''])"
proof -
  have W: "(1::int) \<le> 2" by simp
  from train_model_selection_roundtrip [OF W, of two_batches 2] obtain out where
    o: "calculate_metrics two_batches 2 2 = Inr out" and
    a: "\<exists>X y. train_model_Xy out 2 2 = Inr (X, y) \<and>
                  map fst X = feature_columns 2 \<and> map fst y = target_columns 2 \<and>
                  (\<forall>k c. (k, c) \<in> set X \<union> set y \<longrightarrow> map_of (columns out) k = Some c)" and
    b: "\<forall>W' V'. W' \<noteq> 2 \<longrightarrow>
              train_model_Xy out W' V' = Inl (KeyError (feature_columns W')) \<and>
              (\<forall>k \<in> set (feature_columns W'). map_of (columns out) k = None)" and
    c: "\<forall>V'. V' \<noteq> 2 \<longrightarrow>
              train_model_Xy out 2 V' = Inl (KeyError (target_columns V')) \<and>
              (\<forall>k \<in> set (target_columns V'). map_of (columns out) k = None)"
    by blast
  from a have a': "\<exists>X y. train_model_Xy out 2 2 = Inr (X, y) \<and>
        map fst X = feature_columns 2 \<and> map fst y = target_columns 2"
    by blast
  have "(3::int) \<noteq> 2" by simp
  with b have b': "train_model_Xy out 3 2 = Inl (KeyError (feature_columns 3))"
    by blast
  have "(5::int) \<noteq> 2" by simp
  with c have c': "train_model_Xy out 2 5 = Inl (KeyError (target_columns 5))"
    by blast
  from o a' b' c' show ?thesis
    unfolding names_for_2_3_5 by (intro exI [of _ out] conjI)
qed

subsection \<open>C9: the row count through the stages\<close>

text \<open>
  C9, as the code has it. For every input series of any length \<open>N \<ge> 0\<close>, every
  \<open>W \<ge> 1\<close> and every \<open>V\<close>, no stage raises and every stage keeps the row count. The
  normalization keeps the rows as a collection (none dropped, none added) but puts them
  in ascending date order, so it may reorder them, and it appends no column. The
  historical and the forward stage leave the rows as they are, in place, and only assign
  their own named columns: every other column is kept unchanged. The frame that
  \<open>calculate_metrics\<close> returns has \<open>N\<close> rows, the rows of the input, and \<open>N\<close> cells
  in every column. On an empty series every window computation returns an empty series
  and \<open>calculate_metrics\<close> returns a frame with no row.
\<close>

theorem stages_preserve_row_count:
  assumes "1 \<le> W"
  shows "length (normalize_series df) = length df \<and>
         mset (map snd (normalize_series df)) = mset (map snd df) \<and>
         (\<exists>d'. add_historical_metrics d W = Inr d' \<and> rows d' = rows d \<and>
               (\<forall>k. k \<notin> {col_name ''High_Last_'' W, col_name ''Days_Since_High_Last_'' W,
                           col_name ''%_Diff_From_High_Last_'' W, col_name ''Low_Last_'' W,
                           col_name ''Days_Since_Low_Last_'' W,
                           col_name ''%_Diff_From_Low_Last_'' W} \<longrightarrow>
                    map_of (columns d') k = map_of (columns d) k)) \<and>
         rows (add_future_metrics d V) = rows d \<and>
         (\<forall>k. k \<notin> {col_name ''High_Next_'' V, col_name ''%_Diff_From_High_Next_'' V,
                     col_name ''Low_Next_'' V, col_name ''%_Diff_From_Low_Next_'' V} \<longrightarrow>
              map_of (columns (add_future_metrics d V)) k = map_of (columns d) k) \<and>
         (\<exists>out. calculate_metrics df W V = Inr out \<and>
                length (rows out) = length df \<and>
                mset (rows out) = mset (map snd df) \<and>
                (\<forall>kc \<in> set (columns out). column_length (snd kc) = length df)) \<and>
         calculate_historical_high \<lparr>rows = [], derived = ds\<rparr> W = Inr [] \<and>
         calculate_historical_low \<lparr>rows = [], derived = ds\<rparr> W = Inr [] \<and>
         calculate_future_high \<lparr>rows = [], derived = ds\<rparr> V = [] \<and>
         calculate_future_low \<lparr>rows = [], derived = ds\<rparr> V = [] \<and>
         calculate_pct_diff [] [] = [] \<and>
         (\<exists>out. calculate_metrics [] W V = Inr out \<and> rows out = [] \<and>
                (\<forall>kc \<in> set (columns out). column_length (snd kc) = 0))"
proof -
  note W = assms
  have hist: "\<exists>d'. add_historical_metrics d W = Inr d' \<and> rows d' = rows d \<and>
               (\<forall>k. k \<notin> {col_name ''High_Last_'' W, col_name ''Days_Since_High_Last_'' W,
                           col_name ''%_Diff_From_High_Last_'' W, col_name ''Low_Last_'' W,
                           col_name ''Days_Since_Low_Last_'' W,
                           col_name ''%_Diff_From_Low_Last_'' W} \<longrightarrow>
                    map_of (columns d') k = map_of (columns d) k)"
  proof (intro exI conjI allI impI)
    show "add_historical_metrics d W = Inr (projr (add_historical_metrics d W))"
      by (simp add: add_historical_metrics_Inr [OF W])
    show "rows (projr (add_historical_metrics d W)) = rows d"
      by (rule rows_add_historical_metrics [OF W])
    fix k
    assume "k \<notin> {col_name ''High_Last_'' W, col_name ''Days_Since_High_Last_'' W,
                   col_name ''%_Diff_From_High_Last_'' W, col_name ''Low_Last_'' W,
                   col_name ''Days_Since_Low_Last_'' W, col_name ''%_Diff_From_Low_Last_'' W}"
    then show "map_of (columns (projr (add_historical_metrics d W))) k = map_of (columns d) k"
      by (rule historical_keeps_other_columns [OF W])
  qed
  have fut: "\<forall>k. k \<notin> {col_name ''High_Next_'' V, col_name ''%_Diff_From_High_Next_'' V,
                     col_name ''Low_Next_'' V, col_name ''%_Diff_From_Low_Next_'' V} \<longrightarrow>
              map_of (columns (add_future_metrics d V)) k = map_of (columns d) k"
    using future_keeps_other_columns [of _ V d] by blast
  have whole: "\<exists>out. calculate_metrics df' W V = Inr out \<and>
                length (rows out) = length df' \<and>
                mset (rows out) = mset (map snd df') \<and>
                rows out = map snd (normalize_series df') \<and>
                (\<forall>kc \<in> set (columns out). column_length (snd kc) = length df')" for df'
  proof -
    from calculate_metrics_lengths [OF W, of df' V] obtain out where
      o: "calculate_metrics df' W V = Inr out" and
      r: "rows out = map snd (normalize_series df')" and
      l: "\<forall>kc \<in> set (columns out). column_length (snd kc) = length df'"
      by blast
    from r have "length (rows out) = length df'"
      by (simp add: length_normalize_series)
    moreover from r have "mset (rows out) = mset (map snd df')"
      by (simp only: mset_rows_normalize_series)
    ultimately show ?thesis
      using o r l by blast
  qed
  from whole [of df] have full: "\<exists>out. calculate_metrics df W V = Inr out \<and>
                length (rows out) = length df \<and>
                mset (rows out) = mset (map snd df) \<and>
                (\<forall>kc \<in> set (columns out). column_length (snd kc) = length df)"
    by blast
  from whole [of "[]"] have empty: "\<exists>out. calculate_metrics [] W V = Inr out \<and> rows out = [] \<and>
                (\<forall>kc \<in> set (columns out). column_length (snd kc) = 0)"
    by (auto simp: normalize_series_def reset_index_def sort_values_Date_def)
  from length_normalize_series [of df] mset_rows_normalize_series [of df] hist
    rows_add_future_metrics [of d V] fut full empty_window_computations(1) [OF W, of ds]
    empty_window_computations(2) [OF W, of ds] empty_window_computations(3) [of ds V]
    empty_window_computations(4) [of ds V] empty_window_computations(5) empty
  show ?thesis
    by (intro conjI)
qed


text \<open>The two-batch series (three rows) and the empty series with \<open>W = V = 2\<close>, and the
  historical stage on the five-day frame.\<close>

theorem stages_preserve_row_count_witness:
  "length (normalize_series two_batches) = 3 \<and>
   (\<exists>out. calculate_metrics two_batches 2 2 = Inr out \<and>
          length (rows out) = 3 \<and>
          (\<forall>kc \<in> set (columns out). column_length (snd kc) = 3)) \<and>
   (\<exists>out. calculate_metrics [] 2 2 = Inr out \<and> rows out = []) \<and>
   (\<exists>d'. add_historical_metrics five_days_frame 2 = Inr d' \<and> rows d' = five_days) \<and>
   rows (add_future_metrics five_days_frame 2) = five_days"
proof -
  have W: "(1::int) \<le> 2" by simp
  have n: "length two_batches = 3" by (simp add: two_batches_def)
  have r: "rows five_days_frame = five_days" by (simp add: five_days_frame_def)
  note T = stages_preserve_row_count [OF W, of two_batches five_days_frame 2 "[]", unfolded n r]
  from T have a: "length (normalize_series two_batches) = 3" by blast
  from T have b: "\<exists>out. calculate_metrics two_batches 2 2 = Inr out \<and>
          length (rows out) = 3 \<and>
          (\<forall>kc \<in> set (columns out). column_length (snd kc) = 3)"
    by blast
  from T have c: "\<exists>out. calculate_metrics [] 2 2 = Inr out \<and> rows out = []"
    by blast
  from T have d: "\<exists>d'. add_historical_metrics five_days_frame 2 = Inr d' \<and> rows d' = five_days"
    by blast
  from T have e: "rows (add_future_metrics five_days_frame 2) = five_days"
    by blast
  from a b c d e show ?thesis
    by (intro conjI)
qed

text \<open>The claim as stated has no stage reorder rows; the normalization of the two-batch
  series moves its second row to the end.\<close>

theorem normalization_reorders_rows:
  "map snd (normalize_series two_batches) \<noteq> map snd two_batches"
  unfolding normalize_two_batches by (simp add: two_batches_def mk_bar_def ns_per_day_def)

end
